theory Spec2Isabelle
  imports Complex_Main "HOL-Library.Word"
begin
text \<open>
  A model of two parts of Zrythm and the properties proved of them: the JACK callbacks of the
  audio engine (\<^verbatim>\<open>src/audio/engine.c\<close>: buffer size and process callback) and the audio
  functions (\<^verbatim>\<open>src/audio/audio_function.c\<close>: \<^verbatim>\<open>audio_function_apply\<close> and
  \<^verbatim>\<open>apply_plugin\<close>). Globals are fields of an explicit state, a callback returns the new
  state or the fault that ends it, and what the sources call but do not contain is either a
  parameter or a definition marked as modelled from the specification.
\<close>

unbundle bit_operations_syntax

section \<open>Samples\<close>

text \<open>
  A sample is a C \<^verbatim>\<open>float\<close>. Finite values are modelled by reals (rounding and overflow to
  infinity are not modelled); the non-finite values that IEEE 754 arithmetic produces from
  finite ones (division by zero, zero times infinity) are kept as values of their own.
\<close>

datatype sample = Fin real | PInf | NInf | NaN

section \<open>The engine (src/audio/engine.c)\<close>

subsection \<open>Data\<close>

text \<open>
  What ends a callback other than its \<^verbatim>\<open>return 0\<close>: waiting on a semaphore that is
  not available, a NULL pointer dereferenced, an array read past its end, a failed
  \<^verbatim>\<open>assert\<close>.
\<close>

datatype fault = Blocked | Null_Deref | Out_Of_Bounds | Assert_Failed

text \<open>
  The play states \<^verbatim>\<open>engine.c\<close> names, and the stopped state of the transport state
  machine.
\<close>

datatype play_state =
  PLAYSTATE_STOPPED
| PLAYSTATE_ROLL_REQUESTED
| PLAYSTATE_ROLLING
| PLAYSTATE_PAUSE_REQUESTED
| PLAYSTATE_PAUSED

text \<open>\<^verbatim>\<open>TRANSPORT\<close>: the play state, the semaphore \<^verbatim>\<open>paused\<close> and the playhead in frames.\<close>

record transport =
  play_state :: play_state
  paused :: nat
  playhead_pos :: int

text \<open>A \<^verbatim>\<open>jack_midi_event_t\<close>: time, size and the bytes of the message.\<close>

record jack_midi_event =
  ev_time :: nat
  ev_size :: nat
  ev_buffer :: "8 word list"

datatype port_type = TYPE_AUDIO | TYPE_EVENT | TYPE_CV

text \<open>
  A \<^verbatim>\<open>Port\<close>: the list \<open>port_buf\<close> is the allocated buffer, so its length is the
  number of samples the allocation holds; \<open>port_nframes\<close> is the field \<^verbatim>\<open>nframes\<close>.
\<close>

record port =
  port_type :: port_type
  port_nframes :: nat
  port_buf :: "sample list"
  num_events :: nat
  jack_midi_events :: "jack_midi_event list"

text \<open>
  The plugin descriptor's protocol is a C enum, kept as its integer value: the enum's
  declaration is not part of the sources, so the value of \<^verbatim>\<open>PROT_LV2\<close> is a parameter
  of the callback that uses it.
\<close>

record plugin_descriptor =
  descr_name :: string
  protocol :: int

text \<open>A \<^verbatim>\<open>Plugin\<close>; \<open>'l\<close> is the LV2 plugin behind \<^verbatim>\<open>original_plugin\<close>.\<close>

record 'l plugin =
  descr :: plugin_descriptor
  processed :: int
  original_plugin :: 'l

text \<open>
  A \<^verbatim>\<open>Channel\<close>: its strip has one slot per insert (\<^verbatim>\<open>MAX_PLUGINS\<close> of them), an empty
  slot is NULL. A pointer to a port is the port's index in the engine's port array.
\<close>

record 'l channel =
  ch_processed :: int
  strip :: "'l plugin option list"
  stereo_out_l :: nat
  stereo_out_r :: nat

text \<open>
  \<^verbatim>\<open>MIXER\<close>: the channels of the array \<^verbatim>\<open>MIXER->channels\<close> and the master channel
  \<^verbatim>\<open>MIXER->master\<close>. The callbacks loop over the array and reach the master through its
  own pointer only; the header that declares the mixer is not part of the sources, and the
  master is taken to be a channel of its own, not an entry of the array.
\<close>

record 'l mixer =
  channels :: "'l channel list"
  master :: "'l channel"

text \<open>
  \<^verbatim>\<open>AUDIO_ENGINE\<close>: \<open>ports\<close> is the array \<^verbatim>\<open>ports[0 .. num_ports - 1]\<close>, a NULL entry is
  \<open>None\<close>; \<open>port_operation_lock\<close> is the semaphore's count.
\<close>

record engine =
  block_length :: nat
  buf_size_set :: bool
  midi_buf_size :: nat
  nframes :: nat
  ports :: "port option list"
  midi_in :: nat
  port_operation_lock :: nat
  run :: int

text \<open>
  The steps of a process cycle, by the statements of \<^verbatim>\<open>jack_process_cb\<close> that take them:
  the requested play state applied, \<^verbatim>\<open>zix_sem_wait\<close> on the port operation lock, the loop
  that clears the ports, the MIDI events fetched, the loop that resets the processed flags,
  the call of \<^verbatim>\<open>mixer_process\<close>, the loop that copies the output, \<^verbatim>\<open>zix_sem_post\<close> on
  the lock, the call of \<^verbatim>\<open>transport_update_playhead\<close>.
\<close>

datatype cycle_step =
  State_Applied
| Lock_Taken
| Buffers_Cleared
| Midi_Fetched
| Flags_Reset
| Mixer_Called nat
| Output_Copied nat
| Lock_Released
| Playhead_Moved nat

text \<open>
  The program's variables at one moment: the globals the callbacks work on, and the two
  output buffers the backend hands out for a cycle.
\<close>

record 'l moment =
  at_engine :: engine
  at_mixer :: "'l mixer"
  at_transport :: transport
  at_out_l :: "sample list"
  at_out_r :: "sample list"

text \<open>
  The state: the program's variables, and the history \<open>steps\<close>. The history is not a
  variable of the program: it lists the steps the process callback has taken, the latest
  last, each with the values the variables had when the step was done. A step, once its
  statements are executed, adds its entry, so that the order in which a cycle takes its
  steps, and what each of them found and left, can be read from the state the cycle
  leaves.
\<close>

record 'l state =
  engine :: engine
  mixer :: "'l mixer"
  transport :: transport
  jack_out_l :: "sample list"
  jack_out_r :: "sample list"
  steps :: "(cycle_step \<times> 'l moment) list"

subsection \<open>The buffer size callback\<close>

text \<open>
  \<^verbatim>\<open>realloc (buf, n * sizeof (sample_t))\<close>: the first samples are kept, what the block
  gains is not initialised (the source's \<^verbatim>\<open>TODO memset\<close>): it holds \<open>junk\<close>.
\<close>

definition realloc :: "sample \<Rightarrow> sample list \<Rightarrow> nat \<Rightarrow> sample list" where
  "realloc junk b n = take n b @ replicate (n - length b) junk"

text \<open>The first loop of \<^verbatim>\<open>jack_buffer_size_cb\<close>; it does not test a port for NULL.\<close>

fun realloc_ports :: "sample \<Rightarrow> nat \<Rightarrow> port option list \<Rightarrow> fault + port option list" where
  "realloc_ports junk n [] = Inr []"
| "realloc_ports junk n (None # ps) = Inl Null_Deref"
| "realloc_ports junk n (Some p # ps) =
     (case realloc_ports junk n ps of
        Inl f \<Rightarrow> Inl f
      | Inr ps' \<Rightarrow>
          Inr (Some (p\<lparr>port_nframes := n, port_buf := realloc junk (port_buf p) n\<rparr>) # ps'))"

text \<open>
  The body of the second loop for one plugin of a strip. The condition is the assignment
  \<^verbatim>\<open>plugin->descr->protocol = PROT_LV2\<close>: it stores \<^verbatim>\<open>PROT_LV2\<close> and is true when that
  value is not zero.
\<close>

definition realloc_plugin :: "int \<Rightarrow> ('l \<Rightarrow> 'l) \<Rightarrow> 'l plugin \<Rightarrow> 'l plugin" where
  "realloc_plugin PROT_LV2 lv2_allocate_port_buffers pl =
     (let pl' = pl\<lparr>descr := (descr pl)\<lparr>protocol := PROT_LV2\<rparr>\<rparr>
      in if PROT_LV2 \<noteq> 0
         then pl'\<lparr>original_plugin := lv2_allocate_port_buffers (original_plugin pl')\<rparr>
         else pl')"

definition realloc_channel :: "int \<Rightarrow> ('l \<Rightarrow> 'l) \<Rightarrow> 'l channel \<Rightarrow> 'l channel" where
  "realloc_channel PROT_LV2 lv2_allocate_port_buffers c =
     c\<lparr>strip := map (map_option (realloc_plugin PROT_LV2 lv2_allocate_port_buffers)) (strip c)\<rparr>"

text \<open>
  \<^verbatim>\<open>jack_buffer_size_cb\<close>. Parameters: the value of \<^verbatim>\<open>PROT_LV2\<close>;
  \<^verbatim>\<open>lv2_allocate_port_buffers\<close>, which reads the engine and works on the LV2 plugin it is
  given; \<open>jack_midi\<close>, the size \<^verbatim>\<open>jack_port_type_get_buffer_size\<close> returns where
  \<^verbatim>\<open>HAVE_JACK_PORT_TYPE_GET_BUFFER_SIZE\<close> is defined.
\<close>

definition jack_buffer_size_cb ::
  "int \<Rightarrow> (engine \<Rightarrow> 'l \<Rightarrow> 'l) \<Rightarrow> nat option \<Rightarrow> sample \<Rightarrow> nat \<Rightarrow> 'l state \<Rightarrow> fault + 'l state" where
  "jack_buffer_size_cb PROT_LV2 lv2_allocate_port_buffers jack_midi junk n s =
     (let e1 = (engine s)\<lparr>block_length := n, buf_size_set := True,
                 midi_buf_size := (case jack_midi of None \<Rightarrow> midi_buf_size (engine s) | Some m \<Rightarrow> m)\<rparr>
      in case realloc_ports junk n (ports e1) of
           Inl f \<Rightarrow> Inl f
         | Inr ps \<Rightarrow>
             (let e2 = e1\<lparr>ports := ps\<rparr>;
                  m = (mixer s)\<lparr>channels :=
                        map (realloc_channel PROT_LV2 (lv2_allocate_port_buffers e2))
                          (channels (mixer s))\<rparr>
              in Inr (s\<lparr>engine := e2\<lparr>nframes := n\<rparr>, mixer := m\<rparr>)))"

subsection \<open>The process callback\<close>














text \<open>
  The variables of a state, and a step that has been taken: its name and the variables
  as it leaves them are added to the history.
\<close>

definition moment :: "'l state \<Rightarrow> 'l moment" where
  "moment s = \<lparr>at_engine = engine s, at_mixer = mixer s, at_transport = transport s,
               at_out_l = jack_out_l s, at_out_r = jack_out_r s\<rparr>"

definition log_step :: "cycle_step \<Rightarrow> 'l state \<Rightarrow> 'l state" where
  "log_step x s = s\<lparr>steps := steps s @ [(x, moment s)]\<rparr>"





section \<open>Audio functions (src/audio/audio_function.c)\<close>

subsection \<open>Arithmetic on samples\<close>

text \<open>
  The float operations the audio functions use. On finite values they are the real
  operations; division by zero and the products with an infinity follow IEEE 754 (zero
  has no sign here: a zero divisor counts as \<open>+0\<close>, which is what \<^verbatim>\<open>fabsf\<close> yields).
\<close>

fun sample_mul :: "sample \<Rightarrow> sample \<Rightarrow> sample" where
  "sample_mul NaN y = NaN"
| "sample_mul x NaN = NaN"
| "sample_mul (Fin a) (Fin b) = Fin (a * b)"
| "sample_mul (Fin a) PInf = (if a = 0 then NaN else if 0 < a then PInf else NInf)"
| "sample_mul (Fin a) NInf = (if a = 0 then NaN else if 0 < a then NInf else PInf)"
| "sample_mul PInf (Fin b) = (if b = 0 then NaN else if 0 < b then PInf else NInf)"
| "sample_mul NInf (Fin b) = (if b = 0 then NaN else if 0 < b then NInf else PInf)"
| "sample_mul PInf PInf = PInf"
| "sample_mul PInf NInf = NInf"
| "sample_mul NInf PInf = NInf"
| "sample_mul NInf NInf = PInf"

fun sample_div :: "sample \<Rightarrow> sample \<Rightarrow> sample" where
  "sample_div NaN y = NaN"
| "sample_div x NaN = NaN"
| "sample_div (Fin a) (Fin b) =
     (if b = 0 then (if a = 0 then NaN else if 0 < a then PInf else NInf) else Fin (a / b))"
| "sample_div (Fin a) PInf = Fin 0"
| "sample_div (Fin a) NInf = Fin 0"
| "sample_div PInf (Fin b) = (if 0 \<le> b then PInf else NInf)"
| "sample_div NInf (Fin b) = (if 0 \<le> b then NInf else PInf)"
| "sample_div PInf PInf = NaN"
| "sample_div PInf NInf = NaN"
| "sample_div NInf PInf = NaN"
| "sample_div NInf NInf = NaN"

text \<open>\<^verbatim>\<open>fabsf\<close>.\<close>

fun sample_abs :: "sample \<Rightarrow> sample" where
  "sample_abs (Fin a) = Fin \<bar>a\<bar>"
| "sample_abs PInf = PInf"
| "sample_abs NInf = PInf"
| "sample_abs NaN = NaN"

text \<open>The comparison \<^verbatim>\<open>x > y\<close>: false when either side is not a number.\<close>

fun sample_gt :: "sample \<Rightarrow> sample \<Rightarrow> bool" where
  "sample_gt NaN y = False"
| "sample_gt x NaN = False"
| "sample_gt (Fin a) (Fin b) = (b < a)"
| "sample_gt (Fin a) PInf = False"
| "sample_gt (Fin a) NInf = True"
| "sample_gt PInf (Fin b) = True"
| "sample_gt PInf PInf = False"
| "sample_gt PInf NInf = True"
| "sample_gt NInf y = False"

subsection \<open>The DSP helpers (utils/dsp.h, not part of the sources)\<close>

text \<open>
  What ends \<^verbatim>\<open>audio_function_apply\<close> with a value other than 0:
  \<^item> \<open>Invalid_Positions\<close>: the error \<^verbatim>\<open>Z_AUDIO_AUDIO_FUNCTION_ERROR_INVALID_POSITIONS\<close> is set;
  \<^item> \<open>Failed\<close>: a \<^verbatim>\<open>g_return_val_if_fail\<close> or a \<^verbatim>\<open>return -1\<close> that sets no error;
  \<^item> \<open>Plugin_Failed\<close>: the plugin could not be created or instantiated;
  \<^item> \<open>Undefined\<close>: the C code reads or writes outside an array, sizes an array with a
    negative length or dereferences NULL.
\<close>

datatype af_error = Invalid_Positions | Failed | Plugin_Failed | Undefined

text \<open>
  Modelled from the spec: \<^verbatim>\<open>dsp_copy (dest + d, src + s, n)\<close> copies \<open>n\<close> samples and
  \<^verbatim>\<open>dsp_fill (dest + d, v, n)\<close> stores \<open>v\<close> in \<open>n\<close> samples; both arrays are as long as
  the lists, and an access outside them is undefined.
\<close>

definition dsp_copy :: "sample list \<Rightarrow> nat \<Rightarrow> sample list \<Rightarrow> nat \<Rightarrow> nat \<Rightarrow> af_error + sample list" where
  "dsp_copy dest d src s n =
     (if d + n \<le> length dest \<and> s + n \<le> length src
      then Inr (take d dest @ take n (drop s src) @ drop (d + n) dest)
      else Inl Undefined)"

definition dsp_fill :: "sample list \<Rightarrow> nat \<Rightarrow> sample \<Rightarrow> nat \<Rightarrow> af_error + sample list" where
  "dsp_fill dest d v n =
     (if d + n \<le> length dest
      then Inr (take d dest @ replicate n v @ drop (d + n) dest)
      else Inl Undefined)"

text \<open>
  Modelled from the spec: \<^verbatim>\<open>dsp_mul_k2 (dest, k, n)\<close> scales the first \<open>n\<close> samples by
  \<open>k\<close> (invert: negate every sample; normalize: scale all samples by \<open>1/peak\<close>).
\<close>

definition dsp_mul_k2 :: "sample list \<Rightarrow> sample \<Rightarrow> nat \<Rightarrow> af_error + sample list" where
  "dsp_mul_k2 dest k n =
     (if n \<le> length dest
      then Inr (map (\<lambda>x. sample_mul x k) (take n dest) @ drop n dest)
      else Inl Undefined)"

text \<open>
  Modelled from the spec: \<^verbatim>\<open>dsp_abs_max (buf, &peak, n)\<close> finds the absolute maximum
  sample magnitude across the range, starting from the peak it is given.
\<close>

fun dsp_abs_max :: "sample list \<Rightarrow> sample \<Rightarrow> sample" where
  "dsp_abs_max [] cur_peak = cur_peak"
| "dsp_abs_max (x # xs) cur_peak =
     dsp_abs_max xs (if sample_gt (sample_abs x) cur_peak then sample_abs x else cur_peak)"

text \<open>
  Modelled from the spec: the linear fades multiply by a 0 \<open>\<rightarrow>\<close> 1 and a 1 \<open>\<rightarrow>\<close> 0 ramp
  across the range: sample \<open>i\<close> of \<open>n\<close> by \<open>i / n\<close> and by \<open>(n - i) / n\<close>.
\<close>

definition dsp_linear_fade_in :: "sample list \<Rightarrow> nat \<Rightarrow> af_error + sample list" where
  "dsp_linear_fade_in dest n =
     (if n \<le> length dest
      then Inr (map (\<lambda>i. sample_mul (dest ! i) (Fin (real i / real n))) [0..<n] @ drop n dest)
      else Inl Undefined)"

definition dsp_linear_fade_out :: "sample list \<Rightarrow> nat \<Rightarrow> af_error + sample list" where
  "dsp_linear_fade_out dest n =
     (if n \<le> length dest
      then Inr (map (\<lambda>i. sample_mul (dest ! i) (Fin (real (n - i) / real n))) [0..<n] @ drop n dest)
      else Inl Undefined)"

subsection \<open>Applying a plugin to the frames\<close>

text \<open>
  The hosted plugin, as \<^verbatim>\<open>apply_plugin\<close> uses it: how many audio input and output ports
  it has; \<open>instance_run\<close>, one call of \<^verbatim>\<open>lv2_ui_read_and_apply_events\<close> and
  \<^verbatim>\<open>lilv_instance_run\<close> on the plugin's state \<open>'p\<close>, from the samples written to the two
  input buffers to the contents of the two output buffers (by index); and the latency the
  plugin reports in a state.
\<close>

record 'p plugin_code =
  num_audio_in :: nat
  num_audio_out :: nat
  instance_run :: "'p \<Rightarrow> sample list \<Rightarrow> sample list \<Rightarrow> 'p \<times> (nat \<Rightarrow> sample) \<times> (nat \<Rightarrow> sample)"
  reported_latency :: "'p \<Rightarrow> nat"

text \<open>The \<^verbatim>\<open>Plugin\<close> made for the call: the LV2 instance and the field \<^verbatim>\<open>latency\<close>.\<close>

record 'p plugin_instance =
  pl_lv2 :: 'p
  pl_latency :: nat

definition plugin_update_latency :: "'p plugin_code \<Rightarrow> 'p plugin_instance \<Rightarrow> 'p plugin_instance" where
  "plugin_update_latency code pl = pl\<lparr>pl_latency := reported_latency code (pl_lv2 pl)\<rparr>"

text \<open>
  The search for the ports: the first two audio outputs are \<^verbatim>\<open>l_out\<close> and \<^verbatim>\<open>r_out\<close>;
  with a second output the plugin counts as stereo and the first two audio inputs are
  \<^verbatim>\<open>l_in\<close> and \<^verbatim>\<open>r_in\<close>, without one \<^verbatim>\<open>r_in = l_in\<close> and \<^verbatim>\<open>r_out = l_out\<close>. A port that
  is not found stays NULL.
\<close>

definition num_plugin_channels :: "'p plugin_code \<Rightarrow> nat" where
  "num_plugin_channels code = (if 2 \<le> num_audio_out code then 2 else 1)"

definition in_ports_found :: "'p plugin_code \<Rightarrow> bool" where
  "in_ports_found code \<longleftrightarrow>
     1 \<le> num_audio_in code \<and> (num_plugin_channels code = 1 \<or> 2 \<le> num_audio_in code)"

definition out_ports_found :: "'p plugin_code \<Rightarrow> bool" where
  "out_ports_found code \<longleftrightarrow> 1 \<le> num_audio_out code"

text \<open>
  One run of the plugin on the input buffers. For a mono plugin both input pointers are
  the same buffer, which holds what was written last (the right channel), and both output
  pointers are the one output buffer.
\<close>

definition run_block ::
  "'p plugin_code \<Rightarrow> 'p plugin_instance \<Rightarrow> sample list \<Rightarrow> sample list \<Rightarrow>
   'p plugin_instance \<times> (nat \<Rightarrow> sample) \<times> (nat \<Rightarrow> sample)" where
  "run_block code pl in_l in_r =
     (case instance_run code (pl_lv2 pl) (if num_plugin_channels code = 2 then in_l else in_r) in_r of
        (p, out_l, out_r) \<Rightarrow>
          (pl\<lparr>pl_lv2 := p\<rparr>, out_l, if num_plugin_channels code = 2 then out_r else out_l))"

text \<open>The first inner loop of the main pass: frames \<open>i .. i + step - 1\<close> are read.\<close>

definition read_block :: "sample list \<Rightarrow> nat \<Rightarrow> nat \<Rightarrow> nat \<Rightarrow> af_error + (sample list \<times> sample list)" where
  "read_block frames chans i step =
     (if list_all (\<lambda>j. (i + j) * chans + 1 < length frames) [0..<step]
      then Inr (map (\<lambda>j. frames ! ((i + j) * chans)) [0..<step],
                map (\<lambda>j. frames ! ((i + j) * chans + 1)) [0..<step])
      else Inl Undefined)"

text \<open>
  The second inner loop of the main pass, over the indices \<open>js\<close>: output \<open>j\<close> goes to
  frame \<open>i + j - latency\<close>, and is dropped when that is negative.
\<close>

fun write_main ::
  "bool \<Rightarrow> nat \<Rightarrow> nat \<Rightarrow> nat \<Rightarrow> (nat \<Rightarrow> sample) \<Rightarrow> (nat \<Rightarrow> sample) \<Rightarrow> nat list \<Rightarrow> sample list
   \<Rightarrow> af_error + sample list" where
  "write_main out_ok chans latency i out_l out_r [] frames = Inr frames"
| "write_main out_ok chans latency i out_l out_r (j # js) frames =
     (let actual_j = int (i + j) - int latency
      in if actual_j < 0 then write_main out_ok chans latency i out_l out_r js frames
         else if \<not> out_ok then Inl Undefined
         else if nat actual_j * chans + 1 < length frames
         then write_main out_ok chans latency i out_l out_r js
                (frames[nat actual_j * chans := out_l j, nat actual_j * chans + 1 := out_r j])
         else Inl Undefined)"

text \<open>
  The body of the main pass's \<^verbatim>\<open>while\<close> loop for the block at \<open>i\<close>. \<open>latency\<close> is the
  local variable, read from the plugin once before the loop; the plugin's own field is
  updated after the block when \<^verbatim>\<open>i > latency\<close>.
\<close>

definition main_block ::
  "'p plugin_code \<Rightarrow> nat \<Rightarrow> nat \<Rightarrow> nat \<Rightarrow> nat \<Rightarrow> sample list \<times> 'p plugin_instance
   \<Rightarrow> af_error + (sample list \<times> 'p plugin_instance)" where
  "main_block code chans latency i step fp =
     (if 0 < step \<and> \<not> in_ports_found code then Inl Undefined
      else case read_block (fst fp) chans i step of
             Inl e \<Rightarrow> Inl e
           | Inr ins \<Rightarrow>
               (case run_block code (snd fp) (fst ins) (snd ins) of
                  (pl, out_l, out_r) \<Rightarrow>
                    (case write_main (out_ports_found code) chans latency i out_l out_r
                            [0..<step] (fst fp) of
                       Inl e \<Rightarrow> Inl e
                     | Inr frames \<Rightarrow>
                         Inr (frames, if latency < i then plugin_update_latency code pl else pl))))"

text \<open>
  The main pass: \<^verbatim>\<open>while (i < num_frames)\<close>. With a step of 0 it does not end, which is
  the value \<open>None\<close>.
\<close>

partial_function (option) main_pass ::
  "'p plugin_code \<Rightarrow> nat \<Rightarrow> nat \<Rightarrow> nat \<Rightarrow> nat \<Rightarrow> nat \<Rightarrow> sample list \<times> 'p plugin_instance
   \<Rightarrow> (af_error + (sample list \<times> 'p plugin_instance)) option" where
  "main_pass code chans num_frames latency i step fp =
     (if i < num_frames
      then (case main_block code chans latency i step fp of
              Inl e \<Rightarrow> Some (Inl e)
            | Inr fp' \<Rightarrow>
                main_pass code chans num_frames latency (i + step)
                  (min step (num_frames - (i + step))) fp')
      else Some (Inr fp))"

declare main_pass.simps [code]

text \<open>
  The inner write loop of the flush pass: output \<open>j\<close> goes to frame
  \<open>i + j + num_frames - latency\<close>; a negative index ends the function with \<open>-1\<close>.
\<close>

fun write_flush ::
  "bool \<Rightarrow> nat \<Rightarrow> nat \<Rightarrow> nat \<Rightarrow> nat \<Rightarrow> (nat \<Rightarrow> sample) \<Rightarrow> (nat \<Rightarrow> sample) \<Rightarrow> nat list
   \<Rightarrow> sample list \<Rightarrow> af_error + sample list" where
  "write_flush out_ok chans num_frames latency i out_l out_r [] frames = Inr frames"
| "write_flush out_ok chans num_frames latency i out_l out_r (j # js) frames =
     (let actual_j = int (i + j + num_frames) - int latency
      in if actual_j < 0 then Inl Failed
         else if \<not> out_ok then Inl Undefined
         else if nat actual_j * chans + 1 < length frames
         then write_flush out_ok chans num_frames latency i out_l out_r js
                (frames[nat actual_j * chans := out_l j, nat actual_j * chans + 1 := out_r j])
         else Inl Undefined)"

text \<open>The body of the flush pass's loop: \<open>step\<close> frames of silence go through the plugin.\<close>

definition flush_block ::
  "'p plugin_code \<Rightarrow> nat \<Rightarrow> nat \<Rightarrow> nat \<Rightarrow> nat \<Rightarrow> nat \<Rightarrow> sample list \<times> 'p plugin_instance
   \<Rightarrow> af_error + (sample list \<times> 'p plugin_instance)" where
  "flush_block code chans num_frames latency i step fp =
     (if 0 < step \<and> \<not> in_ports_found code then Inl Undefined
      else case run_block code (snd fp) (replicate step (Fin 0)) (replicate step (Fin 0)) of
             (pl, out_l, out_r) \<Rightarrow>
               (case write_flush (out_ports_found code) chans num_frames latency i out_l out_r
                       [0..<step] (fst fp) of
                  Inl e \<Rightarrow> Inl e
                | Inr frames \<Rightarrow> Inr (frames, pl)))"

partial_function (option) flush_pass ::
  "'p plugin_code \<Rightarrow> nat \<Rightarrow> nat \<Rightarrow> nat \<Rightarrow> nat \<Rightarrow> nat \<Rightarrow> sample list \<times> 'p plugin_instance
   \<Rightarrow> (af_error + (sample list \<times> 'p plugin_instance)) option" where
  "flush_pass code chans num_frames latency i step fp =
     (if i < latency
      then (case flush_block code chans num_frames latency i step fp of
              Inl e \<Rightarrow> Some (Inl e)
            | Inr fp' \<Rightarrow>
                flush_pass code chans num_frames latency (i + step)
                  (min step (latency - (i + step))) fp')
      else Some (Inr fp))"

declare flush_pass.simps [code]

text \<open>
  \<^verbatim>\<open>apply_plugin\<close> from the search for the ports on. Parameters: \<^verbatim>\<open>AUDIO_ENGINE->block_length\<close>;
  \<open>load\<close>, the part before (the plugin is found, created, instantiated, activated and
  shown to the user), which fails or yields the instance's state; and the plugin's code.
  The result is the array \<open>frames\<close> after the call, \<open>None\<close> when the call does not return.
\<close>

definition apply_plugin ::
  "nat \<Rightarrow> (string \<Rightarrow> af_error + 'p) \<Rightarrow> 'p plugin_code \<Rightarrow> string \<Rightarrow> sample list \<Rightarrow> nat \<Rightarrow> nat
   \<Rightarrow> (af_error + sample list) option" where
  "apply_plugin blk_length load code uri frames num_frames chans =
     (case load uri of
        Inl e \<Rightarrow> Some (Inl e)
      | Inr p \<Rightarrow>
          (let pl = plugin_update_latency code \<lparr>pl_lv2 = p, pl_latency = 0\<rparr>;
               latency = pl_latency pl
           in case main_pass code chans num_frames latency 0 (min blk_length num_frames)
                     (frames, pl) of
                None \<Rightarrow> None
              | Some (Inl e) \<Rightarrow> Some (Inl e)
              | Some (Inr fp) \<Rightarrow>
                  (case flush_pass code chans num_frames latency 0 (min blk_length latency) fp of
                     None \<Rightarrow> None
                   | Some (Inl e) \<Rightarrow> Some (Inl e)
                   | Some (Inr fp') \<Rightarrow> Some (Inr (fst fp')))))"

subsection \<open>Clips, regions, the pool and the selections\<close>

datatype AudioFunctionType =
  AUDIO_FUNCTION_INVERT
| AUDIO_FUNCTION_NORMALIZE_PEAK
| AUDIO_FUNCTION_NORMALIZE_RMS
| AUDIO_FUNCTION_NORMALIZE_LUFS
| AUDIO_FUNCTION_LINEAR_FADE_IN
| AUDIO_FUNCTION_LINEAR_FADE_OUT
| AUDIO_FUNCTION_NUDGE_LEFT
| AUDIO_FUNCTION_NUDGE_RIGHT
| AUDIO_FUNCTION_REVERSE
| AUDIO_FUNCTION_EXT_PROGRAM
| AUDIO_FUNCTION_CUSTOM_PLUGIN
| AUDIO_FUNCTION_INVALID

text \<open>An \<^verbatim>\<open>AudioClip\<close>: interleaved frames, and its id in the pool (-1 before it has one).\<close>

record audio_clip =
  clip_name :: string
  clip_frames :: "sample list"
  clip_channels :: nat
  clip_num_frames :: nat
  clip_pool_id :: int

text \<open>
  An audio \<^verbatim>\<open>ZRegion\<close>: the frames of its start and end positions, the pool id of its
  clip, and whether \<^verbatim>\<open>arranger_object_get_track\<close> finds its track.
\<close>

record region =
  reg_pos :: int
  reg_end_pos :: int
  reg_pool_id :: nat
  reg_has_track :: bool

text \<open>The \<^verbatim>\<open>AudioSelections\<close>: positions are in frames.\<close>

record audio_selections =
  region_id :: nat
  sel_start :: int
  sel_end :: int
  pool_id :: int

text \<open>
  The project: the regions \<^verbatim>\<open>region_find\<close> searches (a region's id is its index), the
  clips of \<^verbatim>\<open>AUDIO_POOL\<close> (a clip's pool id is its index) and the files written to the
  pool, each the id and the frames written, the latest last.
\<close>

record project =
  regions :: "region list"
  pool_clips :: "audio_clip list"
  pool_files :: "(nat \<times> sample list) list"

definition region_find :: "project \<Rightarrow> nat \<Rightarrow> region option" where
  "region_find st rid = (if rid < length (regions st) then Some (regions st ! rid) else None)"

definition audio_region_get_clip :: "project \<Rightarrow> region \<Rightarrow> audio_clip option" where
  "audio_region_get_clip st r =
     (if reg_pool_id r < length (pool_clips st) then Some (pool_clips st ! reg_pool_id r) else None)"

text \<open>
  Modelled from the spec: the clip pool (its code is not part of the sources) gives a clip
  a stable integer identity when it is added, and writes a clip's samples to the pool.
\<close>

definition audio_clip_new_from_float_array :: "sample list \<Rightarrow> nat \<Rightarrow> nat \<Rightarrow> string \<Rightarrow> audio_clip" where
  "audio_clip_new_from_float_array arr n chans name =
     \<lparr>clip_name = name, clip_frames = take (n * chans) arr, clip_channels = chans,
      clip_num_frames = n, clip_pool_id = - 1\<rparr>"

definition audio_pool_add_clip :: "project \<Rightarrow> audio_clip \<Rightarrow> project \<times> nat" where
  "audio_pool_add_clip st clip =
     (st\<lparr>pool_clips := pool_clips st @ [clip\<lparr>clip_pool_id := int (length (pool_clips st))\<rparr>]\<rparr>,
      length (pool_clips st))"

definition audio_clip_write_to_pool :: "project \<Rightarrow> nat \<Rightarrow> project" where
  "audio_clip_write_to_pool st pid =
     st\<lparr>pool_files := pool_files st @ [(pid, clip_frames (pool_clips st ! pid))]\<rparr>"

text \<open>
  Modelled from the spec: \<^verbatim>\<open>audio_region_replace_frames\<close> (its code is not part of the
  sources) replaces \<open>n\<close> frames of the region's clip from frame \<open>start\<close> on, in the clip
  itself (\<^verbatim>\<open>F_NO_DUPLICATE_CLIP\<close>), and writes the clip to the pool.
\<close>

definition audio_region_replace_frames ::
  "project \<Rightarrow> region \<Rightarrow> sample list \<Rightarrow> nat \<Rightarrow> nat \<Rightarrow> af_error + project" where
  "audio_region_replace_frames st r frames start n =
     (case audio_region_get_clip st r of
        None \<Rightarrow> Inl Undefined
      | Some clip \<Rightarrow>
          (case dsp_copy (clip_frames clip) (start * clip_channels clip) frames 0
                  (n * clip_channels clip) of
             Inl e \<Rightarrow> Inl e
           | Inr fs \<Rightarrow>
               Inr (audio_clip_write_to_pool
                      (st\<lparr>pool_clips := (pool_clips st)[reg_pool_id r := clip\<lparr>clip_frames := fs\<rparr>]\<rparr>)
                      (reg_pool_id r))))"

subsection \<open>The function types\<close>

text \<open>The loop of \<^verbatim>\<open>AUDIO_FUNCTION_REVERSE\<close>: sample \<open>i * chans + j\<close> of the result.\<close>

definition reverse_frames :: "audio_clip \<Rightarrow> nat \<Rightarrow> nat \<Rightarrow> nat \<Rightarrow> sample list" where
  "reverse_frames orig_clip start num_frames chans =
     map (\<lambda>k. clip_frames orig_clip !
                ((start + ((num_frames - k div chans) - 1)) * chans + k mod chans))
       [0..<num_frames * chans]"

text \<open>
  The \<^verbatim>\<open>switch\<close> on the type: what it leaves in \<open>frames\<close>, or the error it returns with.
  Parameters: \<open>nudge_frames\<close>, the frames of \<^verbatim>\<open>ARRANGER_SELECTIONS_DEFAULT_NUDGE_TICKS\<close>;
  \<open>ext_program\<close>, the clip \<^verbatim>\<open>audio_clip_edit_in_ext_program\<close> returns (or NULL);
  \<open>plugin_apply\<close>, which is \<^verbatim>\<open>apply_plugin\<close>.
\<close>

definition apply_type ::
  "int \<Rightarrow> (audio_clip \<Rightarrow> audio_clip option)
   \<Rightarrow> (string \<Rightarrow> sample list \<Rightarrow> nat \<Rightarrow> nat \<Rightarrow> (af_error + sample list) option)
   \<Rightarrow> AudioFunctionType \<Rightarrow> string option \<Rightarrow> audio_clip \<Rightarrow> nat \<Rightarrow> nat \<Rightarrow> nat
   \<Rightarrow> sample list \<Rightarrow> sample list \<Rightarrow> (af_error + sample list) option" where
  "apply_type nudge_frames ext_program plugin_apply type uri orig_clip start num_frames chans
     frames src_frames =
     (let nudge_frames_all_channels = chans * nat nudge_frames
      in case type of
        AUDIO_FUNCTION_INVERT \<Rightarrow> Some (dsp_mul_k2 frames (Fin (- 1)) (num_frames * chans))
      | AUDIO_FUNCTION_NORMALIZE_PEAK \<Rightarrow>
          (let abs_peak = dsp_abs_max (take (num_frames * chans) frames) (Fin 0)
           in Some (dsp_mul_k2 frames (sample_div (Fin 1) abs_peak) (num_frames * chans)))
      | AUDIO_FUNCTION_NORMALIZE_RMS \<Rightarrow> Some (Inr frames)
      | AUDIO_FUNCTION_NORMALIZE_LUFS \<Rightarrow> Some (Inr frames)
      | AUDIO_FUNCTION_LINEAR_FADE_IN \<Rightarrow> Some (dsp_linear_fade_in frames (num_frames * chans))
      | AUDIO_FUNCTION_LINEAR_FADE_OUT \<Rightarrow> Some (dsp_linear_fade_out frames (num_frames * chans))
      | AUDIO_FUNCTION_NUDGE_LEFT \<Rightarrow>
          Some (if int num_frames > nudge_frames
                then (let num_frames_excl_nudge = num_frames - nat nudge_frames
                      in case dsp_copy frames 0 src_frames nudge_frames_all_channels
                                (chans * num_frames_excl_nudge) of
                           Inl e \<Rightarrow> Inl e
                         | Inr fs \<Rightarrow>
                             dsp_fill fs (chans * num_frames_excl_nudge) (Fin 0)
                               nudge_frames_all_channels)
                else Inl Failed)
      | AUDIO_FUNCTION_NUDGE_RIGHT \<Rightarrow>
          Some (if int num_frames > nudge_frames
                then (let num_frames_excl_nudge = num_frames - nat nudge_frames
                      in case dsp_copy frames (nat nudge_frames) src_frames 0
                                (chans * num_frames_excl_nudge) of
                           Inl e \<Rightarrow> Inl e
                         | Inr fs \<Rightarrow> dsp_fill fs 0 (Fin 0) nudge_frames_all_channels)
                else Inl Failed)
      | AUDIO_FUNCTION_REVERSE \<Rightarrow> Some (Inr (reverse_frames orig_clip start num_frames chans))
      | AUDIO_FUNCTION_EXT_PROGRAM \<Rightarrow>
          Some (case ext_program
                       (audio_clip_new_from_float_array src_frames num_frames chans ''tmp-clip'') of
                  None \<Rightarrow> Inl Failed
                | Some tmp_clip \<Rightarrow>
                    (case dsp_copy frames 0 (clip_frames tmp_clip) 0
                            (min num_frames (clip_num_frames tmp_clip) * chans) of
                       Inl e \<Rightarrow> Inl e
                     | Inr fs \<Rightarrow>
                         if clip_num_frames tmp_clip < num_frames
                         then dsp_fill fs 0 (Fin 0) ((num_frames - clip_num_frames tmp_clip) * chans)
                         else Inr fs))
      | AUDIO_FUNCTION_CUSTOM_PLUGIN \<Rightarrow>
          (case uri of
             None \<Rightarrow> Some (Inl Failed)
           | Some u \<Rightarrow> plugin_apply u frames num_frames chans)
      | AUDIO_FUNCTION_INVALID \<Rightarrow> Some (Inr frames))"

subsection \<open>\<^verbatim>\<open>audio_function_apply\<close>\<close>

text \<open>
  After the \<^verbatim>\<open>switch\<close>: the new clip is added to the pool and written, its pool id is
  stored in the selections, and unless the type is \<^verbatim>\<open>AUDIO_FUNCTION_INVALID\<close> the frames
  of the region are replaced. (The setting of the last action and the event pushed to the
  user interface are not modelled.)
\<close>

definition store_result ::
  "project \<Rightarrow> audio_selections \<Rightarrow> AudioFunctionType \<Rightarrow> region \<Rightarrow> audio_clip \<Rightarrow> nat \<Rightarrow> nat \<Rightarrow> nat
   \<Rightarrow> sample list \<Rightarrow> af_error option \<times> project \<times> audio_selections" where
  "store_result st sel type r orig_clip start num_frames chans frames =
     (case audio_pool_add_clip st
             (audio_clip_new_from_float_array frames num_frames chans (clip_name orig_clip)) of
        (st1, pid) \<Rightarrow>
          (let st2 = audio_clip_write_to_pool st1 pid;
               sel' = sel\<lparr>pool_id := int pid\<rparr>
           in if type \<noteq> AUDIO_FUNCTION_INVALID
              then (case audio_region_replace_frames st2 r frames start num_frames of
                      Inl e \<Rightarrow> (Some e, st2, sel')
                    | Inr st3 \<Rightarrow> (None, st3, sel'))
              else (None, st2, sel')))"

text \<open>
  \<^verbatim>\<open>audio_function_apply\<close>. The result is the error the call returns with (\<open>None\<close> for the
  return value 0), and the project and the selections as the call leaves them; \<open>None\<close>
  when the call does not return.
\<close>

definition audio_function_apply ::
  "int \<Rightarrow> (audio_clip \<Rightarrow> audio_clip option)
   \<Rightarrow> (string \<Rightarrow> sample list \<Rightarrow> nat \<Rightarrow> nat \<Rightarrow> (af_error + sample list) option)
   \<Rightarrow> project \<Rightarrow> audio_selections \<Rightarrow> AudioFunctionType \<Rightarrow> string option
   \<Rightarrow> (af_error option \<times> project \<times> audio_selections) option" where
  "audio_function_apply nudge_frames ext_program plugin_apply st sel type uri =
     (case region_find st (region_id sel) of
        None \<Rightarrow> Some (Some Failed, st, sel)
      | Some r \<Rightarrow>
          if \<not> reg_has_track r then Some (Some Failed, st, sel)
          else (case audio_region_get_clip st r of
             None \<Rightarrow> Some (Some Failed, st, sel)
           | Some orig_clip \<Rightarrow>
               if sel_start sel < reg_pos r \<or> reg_end_pos r < sel_end sel
               then Some (Some Invalid_Positions, st, sel)
               else (let start = sel_start sel - reg_pos r;
                         end_fr = sel_end sel - reg_pos r;
                         chans = clip_channels orig_clip
                     in if end_fr < start then Some (Some Undefined, st, sel)
                        else (let num_frames = nat (end_fr - start)
                              in case dsp_copy (replicate (num_frames * chans) NaN) 0
                                        (clip_frames orig_clip) (nat start * chans)
                                        (num_frames * chans) of
                                   Inl e \<Rightarrow> Some (Some e, st, sel)
                                 | Inr frames \<Rightarrow>
                                     if \<not> 0 < nudge_frames then Some (Some Failed, st, sel)
                                     else (case apply_type nudge_frames ext_program plugin_apply
                                                  type uri orig_clip (nat start) num_frames chans
                                                  frames frames of
                                             None \<Rightarrow> None
                                           | Some (Inl e) \<Rightarrow> Some (Some e, st, sel)
                                           | Some (Inr frames') \<Rightarrow>
                                               Some (store_result st sel type r orig_clip
                                                       (nat start) num_frames chans frames'))))))"

section \<open>Statements about the engine\<close>







subsection \<open>An engine to run the callbacks on\<close>

text \<open>
  Two audio ports (the master's stereo out) and the MIDI-in port, blocks of two frames; one
  channel whose strip holds a plugin of a protocol other than LV2 (here \<^verbatim>\<open>PROT_LV2\<close> is
  0); the transport is stopped at frame 10 and the engine runs.
\<close>

definition demo_state :: "unit state" where
  "demo_state =
     \<lparr>engine = \<lparr>block_length = 2, buf_size_set = False, midi_buf_size = 16, nframes = 2,
                 ports = [Some \<lparr>port_type = TYPE_AUDIO, port_nframes = 2, port_buf = [Fin 1, Fin 2],
                                num_events = 0, jack_midi_events = []\<rparr>,
                          Some \<lparr>port_type = TYPE_AUDIO, port_nframes = 2, port_buf = [Fin 3, Fin 4],
                                num_events = 0, jack_midi_events = []\<rparr>,
                          Some \<lparr>port_type = TYPE_EVENT, port_nframes = 2, port_buf = [Fin 0, Fin 0],
                                num_events = 0, jack_midi_events = []\<rparr>],
                 midi_in = 2, port_operation_lock = 1, run = 1\<rparr>,
      mixer = \<lparr>channels = [\<lparr>ch_processed = 1,
                  strip = [Some \<lparr>descr = \<lparr>descr_name = ''insert'', protocol = 3\<rparr>, processed = 1,
                                  original_plugin = ()\<rparr>, None],
                  stereo_out_l = 0, stereo_out_r = 1\<rparr>],
               master = \<lparr>ch_processed = 0, strip = [None, None], stereo_out_l = 0, stereo_out_r = 1\<rparr>\<rparr>,
      transport = \<lparr>play_state = PLAYSTATE_STOPPED, paused = 0, playhead_pos = 10\<rparr>,
      jack_out_l = [], jack_out_r = [], steps = []\<rparr>"






section \<open>Statements about the audio functions\<close>

text \<open>The samples of the clip \<open>c\<close> that the selection covers in the region \<open>r\<close>.\<close>

definition selected_frames :: "region \<Rightarrow> audio_clip \<Rightarrow> audio_selections \<Rightarrow> sample list" where
  "selected_frames r c sel =
     take (nat (sel_end sel - sel_start sel) * clip_channels c)
       (drop (nat (sel_start sel - reg_pos r) * clip_channels c) (clip_frames c))"

text \<open>The clip \<open>c\<close> with the samples the selection covers replaced by \<open>fs\<close>.\<close>

definition with_selected_frames :: "region \<Rightarrow> audio_clip \<Rightarrow> audio_selections \<Rightarrow> sample list \<Rightarrow> audio_clip" where
  "with_selected_frames r c sel fs =
     c\<lparr>clip_frames :=
         take (nat (sel_start sel - reg_pos r) * clip_channels c) (clip_frames c) @ fs @
         drop ((nat (sel_start sel - reg_pos r) + nat (sel_end sel - sel_start sel)) * clip_channels c)
           (clip_frames c)\<rparr>"

subsection \<open>Projects to apply the functions to\<close>

text \<open>
  One region of three stereo frames at 100 .. 103, whose clip is the pool's only clip; a
  selection of the whole region, and one that ends after the region.
\<close>

definition demo_project :: project where
  "demo_project =
     \<lparr>regions = [\<lparr>reg_pos = 100, reg_end_pos = 103, reg_pool_id = 0, reg_has_track = True\<rparr>],
      pool_clips = [\<lparr>clip_name = ''clip'', clip_frames = [Fin 1, Fin 2, Fin 3, Fin 4, Fin 5, Fin 6],
                     clip_channels = 2, clip_num_frames = 3, clip_pool_id = 0\<rparr>],
      pool_files = []\<rparr>"

definition demo_sel :: audio_selections where
  "demo_sel = \<lparr>region_id = 0, sel_start = 100, sel_end = 103, pool_id = - 1\<rparr>"

definition outside_sel :: audio_selections where
  "outside_sel = \<lparr>region_id = 0, sel_start = 101, sel_end = 104, pool_id = - 1\<rparr>"

text \<open>Two stereo frames of silence, all selected.\<close>

definition silent_project :: project where
  "silent_project =
     \<lparr>regions = [\<lparr>reg_pos = 0, reg_end_pos = 2, reg_pool_id = 0, reg_has_track = True\<rparr>],
      pool_clips = [\<lparr>clip_name = ''silence'', clip_frames = [Fin 0, Fin 0, Fin 0, Fin 0],
                     clip_channels = 2, clip_num_frames = 2, clip_pool_id = 0\<rparr>],
      pool_files = []\<rparr>"

definition silent_sel :: audio_selections where
  "silent_sel = \<lparr>region_id = 0, sel_start = 0, sel_end = 2, pool_id = - 1\<rparr>"

text \<open>No external program and no plugin: both fail when they are called.\<close>

definition no_ext_program :: "audio_clip \<Rightarrow> audio_clip option" where
  "no_ext_program c = None"

definition no_plugin :: "string \<Rightarrow> sample list \<Rightarrow> nat \<Rightarrow> nat \<Rightarrow> (af_error + sample list) option" where
  "no_plugin u fs n c = Some (Inl Failed)"

section \<open>Statements about the plugin application\<close>

text \<open>
  One run of the plugin's code on its state: \<open>run_block\<close> without the \<^verbatim>\<open>Plugin\<close> around
  the state.
\<close>

definition lv2_run ::
  "'p plugin_code \<Rightarrow> 'p \<Rightarrow> sample list \<Rightarrow> sample list \<Rightarrow> 'p \<times> (nat \<Rightarrow> sample) \<times> (nat \<Rightarrow> sample)" where
  "lv2_run code p in_l in_r =
     (case instance_run code p (if num_plugin_channels code = 2 then in_l else in_r) in_r of
        (p', out_l, out_r) \<Rightarrow> (p', out_l, if num_plugin_channels code = 2 then out_r else out_l))"

text \<open>
  The stereo samples the plugin puts out when it is run on the input blocks \<open>bs\<close> one
  after the other from the state \<open>p\<close>, and the state it is in afterwards.
\<close>

fun run_blocks :: "'p plugin_code \<Rightarrow> 'p \<Rightarrow> (sample list \<times> sample list) list \<Rightarrow> (sample \<times> sample) list" where
  "run_blocks code p [] = []"
| "run_blocks code p (b # bs) =
     (case lv2_run code p (fst b) (snd b) of
        (p', out_l, out_r) \<Rightarrow>
          map (\<lambda>j. (out_l j, out_r j)) [0..<length (fst b)] @ run_blocks code p' bs)"

fun after_blocks :: "'p plugin_code \<Rightarrow> 'p \<Rightarrow> (sample list \<times> sample list) list \<Rightarrow> 'p" where
  "after_blocks code p [] = p"
| "after_blocks code p (b # bs) = after_blocks code (fst (lv2_run code p (fst b) (snd b))) bs"

text \<open>
  The block sizes of a pass over \<open>n\<close> frames that starts with \<open>step\<close>: the loops'
  \<^verbatim>\<open>i += step; step = MIN (step, n - i)\<close>.
\<close>

fun block_sizes :: "nat \<Rightarrow> nat \<Rightarrow> nat list" where
  "block_sizes step n =
     (if n = 0 \<or> step = 0 then [] else step # block_sizes (min step (n - step)) (n - step))"

declare block_sizes.simps [simp del]

text \<open>
  The input blocks of the main pass, channels 0 and 1 of the frames from \<open>i\<close> on, and the
  silent blocks of the flush pass.
\<close>

fun input_blocks :: "sample list \<Rightarrow> nat \<Rightarrow> nat \<Rightarrow> nat list \<Rightarrow> (sample list \<times> sample list) list" where
  "input_blocks frames chans i [] = []"
| "input_blocks frames chans i (s # ss) =
     (map (\<lambda>j. frames ! ((i + j) * chans)) [0..<s],
      map (\<lambda>j. frames ! ((i + j) * chans + 1)) [0..<s]) # input_blocks frames chans (i + s) ss"

definition silent_blocks :: "nat list \<Rightarrow> (sample list \<times> sample list) list" where
  "silent_blocks ss = map (\<lambda>s. (replicate s (Fin 0), replicate s (Fin 0))) ss"

text \<open>
  What the plugin puts out for the selection followed by as many frames of silence as the
  latency it reports when it is loaded.
\<close>

definition plugin_output ::
  "nat \<Rightarrow> 'p plugin_code \<Rightarrow> 'p \<Rightarrow> sample list \<Rightarrow> nat \<Rightarrow> nat \<Rightarrow> (sample \<times> sample) list" where
  "plugin_output blk_length code p frames num_frames chans =
     run_blocks code p
       (input_blocks frames chans 0 (block_sizes (min blk_length num_frames) num_frames) @
        silent_blocks (block_sizes (min blk_length (reported_latency code p)) (reported_latency code p)))"

subsection \<open>Plugins to apply\<close>

text \<open>
  A delay line: its state is the stereo samples it still holds, its latency their number.
\<close>

definition delay_run ::
  "(sample \<times> sample) list \<Rightarrow> sample list \<Rightarrow> sample list
   \<Rightarrow> (sample \<times> sample) list \<times> (nat \<Rightarrow> sample) \<times> (nat \<Rightarrow> sample)" where
  "delay_run p in_l in_r =
     (let s = p @ zip in_l in_r
      in (drop (length in_l) s, (\<lambda>j. fst (s ! j)), (\<lambda>j. snd (s ! j))))"

definition delay_plugin :: "(sample \<times> sample) list plugin_code" where
  "delay_plugin = \<lparr>num_audio_in = 2, num_audio_out = 2, instance_run = delay_run,
                    reported_latency = length\<rparr>"

definition load_delay :: "nat \<Rightarrow> string \<Rightarrow> af_error + (sample \<times> sample) list" where
  "load_delay d uri = Inr (replicate d (Fin 0, Fin 0))"

text \<open>Four stereo frames.\<close>

definition ramp :: "sample list" where
  "ramp = [Fin 1, Fin 2, Fin 3, Fin 4, Fin 5, Fin 6, Fin 7, Fin 8]"

text \<open>
  A plugin that counts its runs and reports the count as its latency; in its run number
  \<open>p\<close> (from 0) it puts out the constant \<open>10 + p\<close>, so that a sample it has written tells
  the run it comes from.
\<close>

definition drifting_plugin :: "nat plugin_code" where
  "drifting_plugin = \<lparr>num_audio_in = 2, num_audio_out = 2,
                       instance_run = (\<lambda>p in_l in_r.
                         (p + 1, (\<lambda>j. Fin (real (10 + p))), (\<lambda>j. Fin (real (10 + p))))),
                       reported_latency = (\<lambda>p. p)\<rparr>"

definition load_drifting :: "string \<Rightarrow> af_error + nat" where
  "load_drifting uri = Inr 0"

text \<open>The delay line without an audio output port, and four frames of a mono clip.\<close>

definition mute_plugin :: "(sample \<times> sample) list plugin_code" where
  "mute_plugin = delay_plugin\<lparr>num_audio_out := 0\<rparr>"

definition mono_ramp :: "sample list" where
  "mono_ramp = [Fin 1, Fin 2, Fin 3, Fin 4]"

section \<open>Verified properties of the engine\<close>

subsection \<open>The two halves of a cycle\<close>



lemma log_step_fields [simp]:
  "engine (log_step x s) = engine s" "mixer (log_step x s) = mixer s"
  "transport (log_step x s) = transport s" "steps (log_step x s) = steps s @ [(x, moment s)]"
  "jack_out_l (log_step x s) = jack_out_l s" "jack_out_r (log_step x s) = jack_out_r s"
  "moment (log_step x s) = moment s"
  by (simp_all add: log_step_def moment_def)

subsection \<open>Port buffers keep the block length\<close>














subsection \<open>A cycle returns\<close>
















subsection \<open>The requested play state is applied at the start of a cycle\<close>




subsection \<open>The steps of a process cycle\<close>




subsection \<open>The buffer size callback and the plugin descriptors\<close>

text \<open>
  After the callback the descriptor of every plugin in a strip has the protocol
  \<^verbatim>\<open>PROT_LV2\<close>, whatever it was before.
\<close>

lemma buffer_size_cb_protocol:
  assumes "jack_buffer_size_cb PROT_LV2 lv2_allocate_port_buffers jack_midi junk n s = Inr s'"
    and "c \<in> set (channels (mixer s'))" and "Some pl \<in> set (strip c)"
  shows "protocol (descr pl) = PROT_LV2"
proof -
  from assms(1) obtain e where
    "channels (mixer s') = map (realloc_channel PROT_LV2 (lv2_allocate_port_buffers e)) (channels (mixer s))"
    by (fastforce simp: jack_buffer_size_cb_def Let_def split: sum.splits)
  with assms(2) obtain c0 where c: "c = realloc_channel PROT_LV2 (lv2_allocate_port_buffers e) c0"
    by auto
  with assms(3) obtain x where
    x: "Some pl = map_option (realloc_plugin PROT_LV2 (lv2_allocate_port_buffers e)) x"
    by (auto simp: realloc_channel_def)
  show ?thesis
  proof (cases x)
    case None
    with x show ?thesis by simp
  next
    case (Some pl0)
    with x show ?thesis by (simp add: realloc_plugin_def Let_def)
  qed
qed

text \<open>
  C10. The claim is that the callback leaves every strip plugin's descriptor as it was. The
  code stores \<^verbatim>\<open>PROT_LV2\<close> in the protocol of every strip plugin's descriptor (the
  assignment in the condition): the demo engine's plugin has protocol 3 before the
  callback and \<^verbatim>\<open>PROT_LV2\<close>, here 0, after it.
\<close>

theorem buffer_size_cb_overwrites_protocol:
  "map (\<lambda>c. map (map_option (\<lambda>pl. protocol (descr pl))) (strip c)) (channels (mixer demo_state))
     = [[Some 3, None]] \<and>
   (\<exists>s'. jack_buffer_size_cb 0 (\<lambda>e l. l) None NaN 2 demo_state = Inr s' \<and>
      map (\<lambda>c. map (map_option (\<lambda>pl. protocol (descr pl))) (strip c)) (channels (mixer s'))
        = [[Some 0, None]])"
  by (simp add: demo_state_def jack_buffer_size_cb_def realloc_channel_def realloc_plugin_def
      realloc_def)

section \<open>Verified properties of the audio functions\<close>



lemmas af_defs = audio_function_apply_def region_find_def audio_region_get_clip_def
  apply_type_def store_result_def audio_pool_add_clip_def audio_clip_write_to_pool_def
  audio_region_replace_frames_def audio_clip_new_from_float_array_def dsp_copy_def dsp_fill_def
  dsp_mul_k2_def Let_def

subsection \<open>A selection outside the region\<close>

text \<open>
  C5. When the selection starts before the region's start or ends after the region's end
  (the region, its track and its clip being found), \<^verbatim>\<open>audio_function_apply\<close> fails with
  the invalid-positions error, whatever the function type, and leaves the project (the
  pool's clips and files, the region and its clip's frames) and the selections (their
  pool id included) as they were.
\<close>

theorem invalid_selection_rejected:
  assumes "region_find st (region_id sel) = Some r" and "reg_has_track r"
    and "audio_region_get_clip st r = Some orig_clip"
    and "sel_start sel < reg_pos r \<or> reg_end_pos r < sel_end sel"
  shows "audio_function_apply nudge_frames ext_program plugin_apply st sel type uri
           = Some (Some Invalid_Positions, st, sel)"
  using assms by (simp add: audio_function_apply_def)

text \<open>Witness for C5: a selection that ends one frame after the demo region.\<close>

theorem invalid_selection_rejected_witness:
  "region_find demo_project (region_id outside_sel) = Some (regions demo_project ! 0) \<and>
   reg_end_pos (regions demo_project ! 0) < sel_end outside_sel \<and>
   audio_function_apply 1 no_ext_program no_plugin demo_project outside_sel AUDIO_FUNCTION_INVERT None
     = Some (Some Invalid_Positions, demo_project, outside_sel)"
proof -
  have a: "region_find demo_project (region_id outside_sel) = Some (regions demo_project ! 0)"
    by (simp add: region_find_def demo_project_def outside_sel_def)
  have b: "reg_has_track (regions demo_project ! 0)" by (simp add: demo_project_def)
  have c: "audio_region_get_clip demo_project (regions demo_project ! 0) = Some (pool_clips demo_project ! 0)"
    by (simp add: audio_region_get_clip_def demo_project_def)
  have d: "reg_end_pos (regions demo_project ! 0) < sel_end outside_sel"
    by (simp add: demo_project_def outside_sel_def)
  from invalid_selection_rejected[OF a b c, of 1 no_ext_program no_plugin AUDIO_FUNCTION_INVERT None] a d
  show ?thesis by simp
qed

subsection \<open>What a successful application stores\<close>

lemma apply_reaches_switch:
  assumes "audio_function_apply nudge_frames ext_program plugin_apply st sel type uri = Some (None, st', sel')"
  shows "\<exists>r orig_clip frames'.
           region_find st (region_id sel) = Some r \<and> audio_region_get_clip st r = Some orig_clip \<and>
           reg_pos r \<le> sel_start sel \<and> sel_start sel \<le> sel_end sel \<and>
           apply_type nudge_frames ext_program plugin_apply type uri orig_clip
             (nat (sel_start sel - reg_pos r)) (nat (sel_end sel - sel_start sel))
             (clip_channels orig_clip) (selected_frames r orig_clip sel) (selected_frames r orig_clip sel)
             = Some (Inr frames') \<and>
           store_result st sel type r orig_clip (nat (sel_start sel - reg_pos r))
             (nat (sel_end sel - sel_start sel)) (clip_channels orig_clip) frames' = (None, st', sel')"
  using assms
  by (auto simp: audio_function_apply_def Let_def dsp_copy_def selected_frames_def
      split: option.splits if_splits sum.splits)

lemma store_result_effect:
  assumes g: "audio_region_get_clip st r = Some orig_clip"
    and s: "store_result st sel type r orig_clip start num_frames (clip_channels orig_clip) frames'
              = (None, st', sel')"
  shows "length (pool_clips st') = length (pool_clips st) + 1"
    and "clip_pool_id (pool_clips st' ! length (pool_clips st)) = int (length (pool_clips st))"
    and "clip_frames (pool_clips st' ! length (pool_clips st))
           = take (num_frames * clip_channels orig_clip) frames'"
    and "(length (pool_clips st), take (num_frames * clip_channels orig_clip) frames')
           \<in> set (pool_files st')"
    and "sel' = sel\<lparr>pool_id := int (length (pool_clips st))\<rparr>"
    and "regions st' = regions st"
    and "audio_region_get_clip st' r =
           Some (if type = AUDIO_FUNCTION_INVALID then orig_clip
                 else orig_clip\<lparr>clip_frames :=
                        take (start * clip_channels orig_clip) (clip_frames orig_clip) @
                        take (num_frames * clip_channels orig_clip) frames' @
                        drop ((start + num_frames) * clip_channels orig_clip) (clip_frames orig_clip)\<rparr>)"
proof -
  from g have lt: "reg_pool_id r < length (pool_clips st)"
    and o: "pool_clips st ! reg_pool_id r = orig_clip"
    by (auto simp: audio_region_get_clip_def split: if_splits)
  show "length (pool_clips st') = length (pool_clips st) + 1"
    using s lt o
    by (auto simp: store_result_def audio_pool_add_clip_def audio_clip_write_to_pool_def
        audio_region_replace_frames_def audio_region_get_clip_def Let_def nth_append
        split: if_splits sum.splits option.splits)
  show "clip_pool_id (pool_clips st' ! length (pool_clips st)) = int (length (pool_clips st))"
    using s lt o
    by (auto simp: store_result_def audio_pool_add_clip_def audio_clip_write_to_pool_def
        audio_region_replace_frames_def audio_region_get_clip_def Let_def nth_append
        split: if_splits sum.splits option.splits)
  show "clip_frames (pool_clips st' ! length (pool_clips st))
           = take (num_frames * clip_channels orig_clip) frames'"
    using s lt o
    by (auto simp: store_result_def audio_pool_add_clip_def audio_clip_write_to_pool_def
        audio_region_replace_frames_def audio_region_get_clip_def Let_def nth_append
        audio_clip_new_from_float_array_def
        split: if_splits sum.splits option.splits)
  show "(length (pool_clips st), take (num_frames * clip_channels orig_clip) frames')
           \<in> set (pool_files st')"
    using s lt o
    by (auto simp: store_result_def audio_pool_add_clip_def audio_clip_write_to_pool_def
        audio_region_replace_frames_def audio_region_get_clip_def Let_def nth_append
        audio_clip_new_from_float_array_def
        split: if_splits sum.splits option.splits)
  show "sel' = sel\<lparr>pool_id := int (length (pool_clips st))\<rparr>"
    using s
    by (auto simp: store_result_def audio_pool_add_clip_def Let_def
        split: if_splits sum.splits)
  show "regions st' = regions st"
    using s
    by (auto simp: store_result_def audio_pool_add_clip_def audio_clip_write_to_pool_def
        audio_region_replace_frames_def Let_def
        split: if_splits sum.splits option.splits)
  show "audio_region_get_clip st' r =
           Some (if type = AUDIO_FUNCTION_INVALID then orig_clip
                 else orig_clip\<lparr>clip_frames :=
                        take (start * clip_channels orig_clip) (clip_frames orig_clip) @
                        take (num_frames * clip_channels orig_clip) frames' @
                        drop ((start + num_frames) * clip_channels orig_clip) (clip_frames orig_clip)\<rparr>)"
    using s lt o
    by (auto simp: store_result_def audio_pool_add_clip_def audio_clip_write_to_pool_def
        audio_region_replace_frames_def audio_region_get_clip_def Let_def nth_append
        dsp_copy_def add_mult_distrib
        split: if_splits sum.splits option.splits)
qed

text \<open>
  C9. When \<^verbatim>\<open>audio_function_apply\<close> returns 0, whatever the function type: the pool has
  one clip more, the new clip has the next pool id and holds the samples the \<^verbatim>\<open>switch\<close>
  left in \<open>frames\<close>, it has been written to the pool, and the selections hold its pool id;
  the region's clip is unchanged when the type is \<^verbatim>\<open>AUDIO_FUNCTION_INVALID\<close>, and has the
  selected frames replaced by the new clip's samples for every other type.
\<close>

theorem apply_writes_new_clip:
  assumes "audio_function_apply nudge_frames ext_program plugin_apply st sel type uri
             = Some (None, st', sel')"
  shows "\<exists>r orig_clip frames'.
           region_find st (region_id sel) = Some r \<and>
           audio_region_get_clip st r = Some orig_clip \<and>
           apply_type nudge_frames ext_program plugin_apply type uri orig_clip
             (nat (sel_start sel - reg_pos r)) (nat (sel_end sel - sel_start sel))
             (clip_channels orig_clip) (selected_frames r orig_clip sel) (selected_frames r orig_clip sel)
             = Some (Inr frames') \<and>
           (let new_id = length (pool_clips st);
                new_frames = take (nat (sel_end sel - sel_start sel) * clip_channels orig_clip) frames'
            in length (pool_clips st') = new_id + 1 \<and>
               clip_pool_id (pool_clips st' ! new_id) = int new_id \<and>
               clip_frames (pool_clips st' ! new_id) = new_frames \<and>
               (new_id, new_frames) \<in> set (pool_files st') \<and>
               sel' = sel\<lparr>pool_id := int new_id\<rparr> \<and>
               regions st' = regions st \<and>
               audio_region_get_clip st' r =
                 Some (if type = AUDIO_FUNCTION_INVALID then orig_clip
                       else with_selected_frames r orig_clip sel new_frames))"
proof -
  from apply_reaches_switch[OF assms] obtain r orig_clip frames' where
    r: "region_find st (region_id sel) = Some r" and g: "audio_region_get_clip st r = Some orig_clip"
    and a: "apply_type nudge_frames ext_program plugin_apply type uri orig_clip
             (nat (sel_start sel - reg_pos r)) (nat (sel_end sel - sel_start sel))
             (clip_channels orig_clip) (selected_frames r orig_clip sel) (selected_frames r orig_clip sel)
             = Some (Inr frames')"
    and s: "store_result st sel type r orig_clip (nat (sel_start sel - reg_pos r))
             (nat (sel_end sel - sel_start sel)) (clip_channels orig_clip) frames' = (None, st', sel')"
    by blast
  note e = store_result_effect[OF g s]
  show ?thesis
    apply (intro exI[of _ r] exI[of _ orig_clip] exI[of _ frames'])
    using r g a e by (simp add: Let_def with_selected_frames_def)
qed

text \<open>Witness for C9: the no-op type and invert on the demo project.\<close>

theorem apply_writes_new_clip_witness:
  "(\<exists>st' sel'. audio_function_apply 1 no_ext_program no_plugin demo_project demo_sel
        AUDIO_FUNCTION_INVALID None = Some (None, st', sel') \<and>
      length (pool_clips st') = 2 \<and> pool_id sel' = 1 \<and>
      clip_frames (pool_clips st' ! 1) = [Fin 1, Fin 2, Fin 3, Fin 4, Fin 5, Fin 6] \<and>
      clip_frames (pool_clips st' ! 0) = [Fin 1, Fin 2, Fin 3, Fin 4, Fin 5, Fin 6]) \<and>
   (\<exists>st' sel'. audio_function_apply 1 no_ext_program no_plugin demo_project demo_sel
        AUDIO_FUNCTION_INVERT None = Some (None, st', sel') \<and>
      length (pool_clips st') = 2 \<and> pool_id sel' = 1 \<and>
      clip_frames (pool_clips st' ! 1) = [Fin (- 1), Fin (- 2), Fin (- 3), Fin (- 4), Fin (- 5), Fin (- 6)] \<and>
      clip_frames (pool_clips st' ! 0) = [Fin (- 1), Fin (- 2), Fin (- 3), Fin (- 4), Fin (- 5), Fin (- 6)])"
proof -
  have a: "\<exists>st' sel'. audio_function_apply 1 no_ext_program no_plugin demo_project demo_sel
        AUDIO_FUNCTION_INVALID None = Some (None, st', sel') \<and>
      clip_frames (pool_clips st' ! 1) = [Fin 1, Fin 2, Fin 3, Fin 4, Fin 5, Fin 6] \<and>
      clip_frames (pool_clips st' ! 0) = [Fin 1, Fin 2, Fin 3, Fin 4, Fin 5, Fin 6]"
    by (simp add: af_defs demo_project_def demo_sel_def)
  have b: "\<exists>st' sel'. audio_function_apply 1 no_ext_program no_plugin demo_project demo_sel
        AUDIO_FUNCTION_INVERT None = Some (None, st', sel') \<and>
      clip_frames (pool_clips st' ! 1) = [Fin (- 1), Fin (- 2), Fin (- 3), Fin (- 4), Fin (- 5), Fin (- 6)] \<and>
      clip_frames (pool_clips st' ! 0) = [Fin (- 1), Fin (- 2), Fin (- 3), Fin (- 4), Fin (- 5), Fin (- 6)]"
    by (simp add: af_defs demo_project_def demo_sel_def)
  have n: "length (pool_clips demo_project) = 1" by (simp add: demo_project_def)
  have c: "length (pool_clips st') = 2 \<and> pool_id sel' = 1"
    if "audio_function_apply 1 no_ext_program no_plugin demo_project demo_sel type None
          = Some (None, st', sel')" for type st' sel'
    using apply_writes_new_clip[OF that] n by (auto simp: Let_def)
  from a b c show ?thesis by blast
qed

subsection \<open>The nudges and the length of the selection\<close>

lemma length_selected_frames:
  assumes "reg_pos r \<le> sel_start sel" and "sel_start sel \<le> sel_end sel"
    and "nat (sel_end sel - reg_pos r) * clip_channels c \<le> length (clip_frames c)"
  shows "length (selected_frames r c sel) = nat (sel_end sel - sel_start sel) * clip_channels c"
proof -
  have "nat (sel_end sel - reg_pos r) = nat (sel_start sel - reg_pos r) + nat (sel_end sel - sel_start sel)"
    using assms(1,2) by simp
  with assms(3) show ?thesis
    by (simp add: selected_frames_def add_mult_distrib)
qed

lemma apply_valid_selection:
  assumes "region_find st (region_id sel) = Some r" and "reg_has_track r"
    and "audio_region_get_clip st r = Some orig_clip"
    and "reg_pos r \<le> sel_start sel" and "sel_end sel \<le> reg_end_pos r"
    and "sel_start sel \<le> sel_end sel"
    and "nat (sel_end sel - reg_pos r) * clip_channels orig_clip \<le> length (clip_frames orig_clip)"
    and "0 < nudge_frames"
  shows "audio_function_apply nudge_frames ext_program plugin_apply st sel type uri =
           (case apply_type nudge_frames ext_program plugin_apply type uri orig_clip
                   (nat (sel_start sel - reg_pos r)) (nat (sel_end sel - sel_start sel))
                   (clip_channels orig_clip) (selected_frames r orig_clip sel)
                   (selected_frames r orig_clip sel) of
              None \<Rightarrow> None
            | Some (Inl e) \<Rightarrow> Some (Some e, st, sel)
            | Some (Inr frames') \<Rightarrow>
                Some (store_result st sel type r orig_clip (nat (sel_start sel - reg_pos r))
                        (nat (sel_end sel - sel_start sel)) (clip_channels orig_clip) frames'))"
proof -
  have e: "nat (sel_end sel - reg_pos r) = nat (sel_start sel - reg_pos r) + nat (sel_end sel - sel_start sel)"
    using assms(4,6) by simp
  have len: "nat (sel_start sel - reg_pos r) * clip_channels orig_clip +
             nat (sel_end sel - sel_start sel) * clip_channels orig_clip \<le> length (clip_frames orig_clip)"
    using assms(7) by (simp add: e add_mult_distrib)
  have d: "sel_end sel - reg_pos r - (sel_start sel - reg_pos r) = sel_end sel - sel_start sel"
    by simp
  from assms(1-6,8) len show ?thesis
    by (simp add: audio_function_apply_def Let_def dsp_copy_def selected_frames_def d)
qed

lemma store_result_ok:
  assumes "audio_region_get_clip st r = Some orig_clip"
    and "start * clip_channels orig_clip + n * clip_channels orig_clip \<le> length (clip_frames orig_clip)"
    and "n * clip_channels orig_clip \<le> length frames'"
  shows "\<exists>st' sel'. store_result st sel type r orig_clip start n (clip_channels orig_clip) frames'
           = (None, st', sel')"
proof -
  have lt: "reg_pool_id r < length (pool_clips st)" and o: "pool_clips st ! reg_pool_id r = orig_clip"
    using assms(1) by (auto simp: audio_region_get_clip_def split: if_splits)
  with assms(2,3) show ?thesis
    by (simp add: store_result_def audio_pool_add_clip_def audio_clip_write_to_pool_def
        audio_region_replace_frames_def audio_region_get_clip_def dsp_copy_def Let_def nth_append)
qed

lemma length_dsp_copy: "dsp_copy dest d src s n = Inr fs \<Longrightarrow> length fs = length dest"
  by (auto simp: dsp_copy_def split: if_splits)

lemma length_dsp_fill: "dsp_fill dest d v n = Inr fs \<Longrightarrow> length fs = length dest"
  by (auto simp: dsp_fill_def split: if_splits)

lemma nudge_arith:
  assumes "d < (n::nat)"
  shows "c * d + c * (n - d) = n * c" and "c * (n - d) + c * d = n * c" and "c * d \<le> n * c"
proof -
  show a: "c * d + c * (n - d) = n * c"
    using assms by (metis add_mult_distrib2 le_add_diff_inverse less_imp_le_nat mult.commute)
  then show "c * (n - d) + c * d = n * c" by simp
  from a show "c * d \<le> n * c" by linarith
qed

lemma apply_type_nudge_left:
  assumes "length frames = n * c" and "0 < d"
  shows "apply_type (int d) ext_program plugin_apply AUDIO_FUNCTION_NUDGE_LEFT uri orig_clip start n c
           frames frames =
         Some (if d < n then Inr (drop (c * d) frames @ replicate (c * d) (Fin 0)) else Inl Failed)"
proof (cases "d < n")
  case True
  from True assms nudge_arith[OF True, of c] show ?thesis
    by (simp add: apply_type_def dsp_copy_def dsp_fill_def Let_def)
next
  case False
  then show ?thesis by (simp add: apply_type_def Let_def)
qed

lemma apply_type_nudge_right:
  assumes "length frames = n * c" and "0 < d" and "1 \<le> c"
  shows "apply_type (int d) ext_program plugin_apply AUDIO_FUNCTION_NUDGE_RIGHT uri orig_clip start n c
           frames frames =
         Some (if d < n
               then Inr (replicate (c * d) (Fin 0) @
                         drop (c * d) (take d frames @ take (c * (n - d)) frames @
                                       drop (d + c * (n - d)) frames))
               else Inl Failed)"
proof (cases "d < n")
  case True
  from assms(3) have "d \<le> c * d" by simp
  with nudge_arith[OF True, of c] have m': "d + c * (n - d) \<le> n * c" by linarith
  from True assms m' nudge_arith[OF True, of c] show ?thesis
    by (simp add: apply_type_def dsp_copy_def dsp_fill_def Let_def)
next
  case False
  then show ?thesis by (simp add: apply_type_def Let_def)
qed

lemma apply_type_nudge:
  assumes "length frames = n * c" and "0 < d" and "1 \<le> c"
    and "type = AUDIO_FUNCTION_NUDGE_LEFT \<or> type = AUDIO_FUNCTION_NUDGE_RIGHT"
  shows "\<exists>fs. apply_type (int d) ext_program plugin_apply type uri orig_clip start n c frames frames
                = Some (if d < n then Inr fs else Inl Failed) \<and> length fs = n * c"
proof (cases "d < n")
  case False
  with assms show ?thesis
    by (auto simp: apply_type_nudge_left apply_type_nudge_right)
next
  case True
  from assms(3) have "d \<le> c * d" by simp
  with nudge_arith[OF True, of c] have m': "d + c * (n - d) \<le> n * c" by linarith
  from assms(4) show ?thesis
  proof
    assume "type = AUDIO_FUNCTION_NUDGE_LEFT"
    with True assms(1,2) nudge_arith[OF True, of c] show ?thesis
      by (simp add: apply_type_nudge_left)
  next
    assume "type = AUDIO_FUNCTION_NUDGE_RIGHT"
    with True assms(1,2,3) nudge_arith[OF True, of c] m' show ?thesis
      by (simp add: apply_type_nudge_right)
  qed
qed

text \<open>
  C6, amended. For a selection inside the region and inside the clip's frames (at least
  one channel, a positive nudge distance), nudge-left and nudge-right fail exactly when
  the selection is not longer than the nudge distance, that is also when it is as long;
  for every longer selection they succeed. The failure is the \<^verbatim>\<open>-1\<close> of a
  \<^verbatim>\<open>g_return_val_if_fail\<close>, which sets no error, and leaves project and selections as
  they were.
\<close>

theorem nudge_fails_unless_longer:
  assumes "region_find st (region_id sel) = Some r" and "reg_has_track r"
    and "audio_region_get_clip st r = Some orig_clip"
    and "reg_pos r \<le> sel_start sel" and "sel_end sel \<le> reg_end_pos r"
    and "sel_start sel \<le> sel_end sel"
    and "nat (sel_end sel - reg_pos r) * clip_channels orig_clip \<le> length (clip_frames orig_clip)"
    and "0 < nudge_frames" and "1 \<le> clip_channels orig_clip"
    and "type = AUDIO_FUNCTION_NUDGE_LEFT \<or> type = AUDIO_FUNCTION_NUDGE_RIGHT"
  shows "if sel_end sel - sel_start sel \<le> nudge_frames
         then audio_function_apply nudge_frames ext_program plugin_apply st sel type uri
                = Some (Some Failed, st, sel)
         else (\<exists>st' sel'. audio_function_apply nudge_frames ext_program plugin_apply st sel type uri
                = Some (None, st', sel'))"
proof -
  define start where "start = nat (sel_start sel - reg_pos r)"
  define n where "n = nat (sel_end sel - sel_start sel)"
  define c where "c = clip_channels orig_clip"
  define d where "d = nat nudge_frames"
  define frames where "frames = selected_frames r orig_clip sel"
  have e: "nat (sel_end sel - reg_pos r) = start + n"
    using assms(4,6) by (simp add: start_def n_def)
  have len: "start * c + n * c \<le> length (clip_frames orig_clip)"
    using assms(7) by (simp add: e c_def add_mult_distrib)
  have d: "nudge_frames = int d" "0 < d" using assms(8) by (simp_all add: d_def)
  have n: "sel_end sel - sel_start sel \<le> nudge_frames \<longleftrightarrow> \<not> d < n"
    using assms(6) d by (auto simp: n_def)
  have lf: "length frames = n * c"
    unfolding frames_def n_def c_def by (rule length_selected_frames[OF assms(4,6,7)])
  note v = apply_valid_selection[OF assms(1-8), of ext_program plugin_apply type uri,
      folded start_def n_def c_def frames_def]
  from apply_type_nudge[OF lf d(2) _ assms(10), of ext_program plugin_apply uri orig_clip start] assms(9)
  obtain fs where
    t: "apply_type nudge_frames ext_program plugin_apply type uri orig_clip start n c frames frames
          = Some (if d < n then Inr fs else Inl Failed)" and lfs: "length fs = n * c"
    by (auto simp: d(1) c_def)
  show ?thesis
  proof (cases "d < n")
    case True
    from store_result_ok[OF assms(3), where start=start and n=n and frames'=fs and sel=sel and type=type] len lfs
    obtain st' sel' where "store_result st sel type r orig_clip start n c fs = (None, st', sel')"
      by (auto simp: c_def)
    with True v t n show ?thesis by simp
  next
    case False
    with v t n show ?thesis by simp
  qed
qed

text \<open>
  Witness for C6: on the demo selection of 3 frames, a nudge of 3 frames fails and a nudge
  of 2 frames succeeds.
\<close>

lemma demo_valid:
  "region_find demo_project (region_id demo_sel) = Some (regions demo_project ! 0)"
  "reg_has_track (regions demo_project ! 0)"
  "audio_region_get_clip demo_project (regions demo_project ! 0) = Some (pool_clips demo_project ! 0)"
  "reg_pos (regions demo_project ! 0) \<le> sel_start demo_sel"
  "sel_end demo_sel \<le> reg_end_pos (regions demo_project ! 0)"
  "sel_start demo_sel \<le> sel_end demo_sel"
  "nat (sel_end demo_sel - reg_pos (regions demo_project ! 0)) * clip_channels (pool_clips demo_project ! 0)
     \<le> length (clip_frames (pool_clips demo_project ! 0))"
  "1 \<le> clip_channels (pool_clips demo_project ! 0)"
  by (simp_all add: region_find_def audio_region_get_clip_def demo_project_def demo_sel_def)

theorem nudge_fails_unless_longer_witness:
  "sel_end demo_sel - sel_start demo_sel = 3 \<and>
   audio_function_apply 3 no_ext_program no_plugin demo_project demo_sel AUDIO_FUNCTION_NUDGE_RIGHT None
     = Some (Some Failed, demo_project, demo_sel) \<and>
   (\<exists>st' sel'. audio_function_apply 2 no_ext_program no_plugin demo_project demo_sel
        AUDIO_FUNCTION_NUDGE_LEFT None = Some (None, st', sel'))"
proof -
  have l: "sel_end demo_sel - sel_start demo_sel = 3" by (simp add: demo_sel_def)
  have "(0::int) < 3" "(0::int) < 2" by simp_all
  from nudge_fails_unless_longer[OF demo_valid(1-7) this(1) demo_valid(8), of AUDIO_FUNCTION_NUDGE_RIGHT
      no_ext_program no_plugin None]
    nudge_fails_unless_longer[OF demo_valid(1-7) this(2) demo_valid(8), of AUDIO_FUNCTION_NUDGE_LEFT
      no_ext_program no_plugin None] l
  show ?thesis by simp
qed

text \<open>
  Counterexample for C6 as stated: the selection is as long as the nudge distance (3
  frames), and both nudges fail.
\<close>

theorem nudge_by_selection_length_fails:
  "sel_end demo_sel - sel_start demo_sel = 3 \<and>
   audio_function_apply 3 no_ext_program no_plugin demo_project demo_sel AUDIO_FUNCTION_NUDGE_LEFT None
     = Some (Some Failed, demo_project, demo_sel) \<and>
   audio_function_apply 3 no_ext_program no_plugin demo_project demo_sel AUDIO_FUNCTION_NUDGE_RIGHT None
     = Some (Some Failed, demo_project, demo_sel)"
  by (simp add: af_defs demo_project_def demo_sel_def)

subsection \<open>Normalizing\<close>

text \<open>Every sample of the range is scaled by \<open>1 / peak\<close>, whatever the peak.\<close>

lemma normalize_peak_scales:
  assumes "length frames = n * c"
  shows "apply_type nudge_frames ext_program plugin_apply AUDIO_FUNCTION_NORMALIZE_PEAK uri orig_clip
           start n c frames src_frames =
         Some (Inr (map (\<lambda>x. sample_mul x (sample_div (Fin 1) (dsp_abs_max frames (Fin 0)))) frames))"
  using assms by (simp add: apply_type_def dsp_mul_k2_def Let_def)

text \<open>
  C2. The claim is that a peak of zero is guarded and leaves the samples as they are. The
  code computes \<^verbatim>\<open>1.f / abs_peak\<close> without a test: for a silent range the peak is 0, the
  factor is infinite, and every sample \<open>0\<close> becomes \<open>0 \<times> \<infinity>\<close>, which is not a number.
\<close>

theorem normalize_peak_of_silence:
  "dsp_abs_max (clip_frames (pool_clips silent_project ! 0)) (Fin 0) = Fin 0 \<and>
   sample_div (Fin 1) (Fin 0) = PInf \<and>
   (\<exists>st' sel'. audio_function_apply 1 no_ext_program no_plugin silent_project silent_sel
        AUDIO_FUNCTION_NORMALIZE_PEAK None = Some (None, st', sel') \<and>
      clip_frames (pool_clips st' ! 0) = [NaN, NaN, NaN, NaN])"
  by (simp add: af_defs silent_project_def silent_sel_def)

subsection \<open>Nudge left, then nudge right\<close>

text \<open>
  With one channel the two nudges undo each other up to the zero-filled boundary: the
  first \<open>d\<close> frames are zero, the others are the original ones.
\<close>

lemma nudge_left_then_right_mono:
  assumes "length frames = n" and "0 < d" and "d < n"
  shows "\<exists>fs. apply_type (int d) ext_program plugin_apply AUDIO_FUNCTION_NUDGE_LEFT uri orig_clip
                start n 1 frames frames = Some (Inr fs) \<and>
              apply_type (int d) ext_program plugin_apply AUDIO_FUNCTION_NUDGE_RIGHT uri orig_clip
                start n 1 fs fs = Some (Inr (replicate d (Fin 0) @ drop d frames))"
proof -
  define fs where "fs = drop d frames @ replicate d (Fin 0)"
  have l: "apply_type (int d) ext_program plugin_apply AUDIO_FUNCTION_NUDGE_LEFT uri orig_clip
                start n 1 frames frames = Some (Inr fs)"
    using apply_type_nudge_left[of frames n 1 d] assms by (simp add: fs_def)
  have lfs: "length fs = n * 1" using assms by (simp add: fs_def)
  have "drop d (take d fs @ take (n - d) fs @ drop (d + (n - d)) fs) = drop d frames"
    using assms by (simp add: fs_def)
  with apply_type_nudge_right[OF lfs assms(2), of ext_program plugin_apply uri orig_clip start] assms(3)
  have "apply_type (int d) ext_program plugin_apply AUDIO_FUNCTION_NUDGE_RIGHT uri orig_clip
                start n 1 fs fs = Some (Inr (replicate d (Fin 0) @ drop d frames))"
    by simp
  with l show ?thesis by blast
qed

text \<open>
  C3. The claim is that nudge-left followed by nudge-right by the same distance gives the
  original frames back except for a zero-filled boundary of that distance. On three stereo
  frames \<open>(1, 2) (3, 4) (5, 6)\<close> and a distance of one frame, nudge-left gives
  \<open>(3, 4) (5, 6) (0, 0)\<close> and nudge-right then gives \<open>(0, 0) (4, 5) (6, 0)\<close>, where the
  claim has \<open>(0, 0) (3, 4) (5, 6)\<close>: nudge-right copies to the offset \<^verbatim>\<open>nudge_frames\<close>
  samples, not \<^verbatim>\<open>nudge_frames_all_channels\<close>.
\<close>

theorem nudge_left_then_right_stereo:
  "\<exists>st1 sel1 st2 sel2.
     audio_function_apply 1 no_ext_program no_plugin demo_project demo_sel
       AUDIO_FUNCTION_NUDGE_LEFT None = Some (None, st1, sel1) \<and>
     clip_frames (pool_clips st1 ! 0) = [Fin 3, Fin 4, Fin 5, Fin 6, Fin 0, Fin 0] \<and>
     audio_function_apply 1 no_ext_program no_plugin st1 sel1
       AUDIO_FUNCTION_NUDGE_RIGHT None = Some (None, st2, sel2) \<and>
     clip_frames (pool_clips st2 ! 0) = [Fin 0, Fin 0, Fin 4, Fin 5, Fin 6, Fin 0]"
  by (simp add: af_defs demo_project_def demo_sel_def numeral_2_eq_2)

section \<open>Verified properties of the plugin application\<close>

subsection \<open>Indices of interleaved frames\<close>

lemma interleaved_index_eq:
  fixes a a' c c' n :: nat
  assumes "c < n" "c' < n"
  shows "a * n + c = a' * n + c' \<longleftrightarrow> a = a' \<and> c = c'"
proof
  assume e: "a * n + c = a' * n + c'"
  have "(a * n + c) div n = a" "(a' * n + c') div n = a'" using assms by simp_all
  with e have "a = a'" by simp
  with e show "a = a' \<and> c = c'" by simp
qed simp

lemma interleaved_index_less:
  fixes a c n N :: nat
  assumes "a < N" "c < n"
  shows "a * n + c < N * n"
proof -
  have "a * n + c < a * n + n" using assms(2) by simp
  also have "\<dots> = (a + 1) * n" by simp
  also have "\<dots> \<le> N * n" using assms(1) by (intro mult_le_mono1) simp
  finally show ?thesis .
qed

subsection \<open>The main pass\<close>

lemma run_block_lv2:
  "run_block code pl in_l in_r =
     (case lv2_run code (pl_lv2 pl) in_l in_r of (p', out_l, out_r) \<Rightarrow> (pl\<lparr>pl_lv2 := p'\<rparr>, out_l, out_r))"
  by (simp add: run_block_def lv2_run_def split: prod.splits)

lemma read_block_ok:
  assumes "2 \<le> chans" "length F = N * chans" "i + step \<le> N"
  shows "read_block F chans i step =
           Inr (map (\<lambda>j. F ! ((i + j) * chans)) [0..<step],
                map (\<lambda>j. F ! ((i + j) * chans + 1)) [0..<step])"
proof -
  have "(i + j) * chans + 1 < length F" if "j < step" for j
    using interleaved_index_less[of "i + j" N 1 chans] assms that by simp
  then show ?thesis by (simp add: read_block_def list_all_iff)
qed

lemma write_main_upt:
  assumes "2 \<le> chans" "i + step \<le> N"
  shows "k \<le> step \<Longrightarrow> length F = N * chans \<Longrightarrow>
         \<exists>F'. write_main True chans L i out_l out_r [k..<step] F = Inr F' \<and> length F' = N * chans \<and>
           (\<forall>a c. a < N \<longrightarrow> c < chans \<longrightarrow>
              F' ! (a * chans + c) =
                (if i + k \<le> a + L \<and> a + L < i + step \<and> c < 2
                 then (if c = 0 then out_l (a + L - i) else out_r (a + L - i))
                 else F ! (a * chans + c)))"
proof (induction "step - k" arbitrary: k F)
  case 0
  then have "step = k" by simp
  with 0 show ?case by (intro exI[of _ F]) auto
next
  case (Suc m)
  then have k: "k < step" by simp
  then have upt: "[k..<step] = k # [Suc k..<step]" by (simp add: upt_conv_Cons)
  from Suc.hyps(2) have m: "m = step - Suc k" by simp
  show ?case
  proof (cases "i + k < L")
    case True
    from Suc.hyps(1)[OF m _ Suc.prems(2)] k
    obtain F' where F': "write_main True chans L i out_l out_r [Suc k..<step] F = Inr F'"
      "length F' = N * chans"
      "\<And>a c. a < N \<Longrightarrow> c < chans \<Longrightarrow> F' ! (a * chans + c) =
                (if i + Suc k \<le> a + L \<and> a + L < i + step \<and> c < 2
                 then (if c = 0 then out_l (a + L - i) else out_r (a + L - i))
                 else F ! (a * chans + c))"
      by auto
    have "(i + Suc k \<le> a + L) = (i + k \<le> a + L)" for a using True by auto
    with F' True show ?thesis by (simp add: upt)
  next
    case False
    define a0 where "a0 = i + k - L"
    have a0: "a0 < N" "a0 + L = i + k" using False k assms(2) by (auto simp: a0_def)
    have n: "nat (int (i + k) - int L) = a0" "nat (int i + int k - int L) = a0"
      using False by (simp_all add: a0_def)
    have idx: "a0 * chans + 1 < length F" "a0 * chans < length F"
      using interleaved_index_less[OF a0(1), of 1 chans] interleaved_index_less[OF a0(1), of 0 chans]
        assms(1) Suc.prems(2) by simp_all
    define F1 where "F1 = F[a0 * chans := out_l k, a0 * chans + 1 := out_r k]"
    have lF1: "length F1 = N * chans" using Suc.prems(2) by (simp add: F1_def)
    from Suc.hyps(1)[OF m _ lF1] k
    obtain F' where F': "write_main True chans L i out_l out_r [Suc k..<step] F1 = Inr F'"
      "length F' = N * chans"
      "\<And>a c. a < N \<Longrightarrow> c < chans \<Longrightarrow> F' ! (a * chans + c) =
                (if i + Suc k \<le> a + L \<and> a + L < i + step \<and> c < 2
                 then (if c = 0 then out_l (a + L - i) else out_r (a + L - i))
                 else F1 ! (a * chans + c))"
      by auto
    have w: "write_main True chans L i out_l out_r [k..<step] F = Inr F'"
      using False idx F'(1) by (simp add: upt n F1_def Let_def)
    have F1n: "F1 ! (a * chans + c) =
         (if a = a0 \<and> c < 2 then (if c = 0 then out_l k else out_r k) else F ! (a * chans + c))"
      if "a < N" "c < chans" for a c
    proof -
      have e0: "(a0 * chans = a * chans + c) = (a = a0 \<and> c = 0)"
        using interleaved_index_eq[of 0 chans c a0 a] assms(1) that(2) by auto
      have e1: "(Suc (a0 * chans) = a * chans + c) = (a = a0 \<and> c = 1)"
        using interleaved_index_eq[of 1 chans c a0 a] assms(1) that(2) by auto
      have "a * chans + c < length F"
        using interleaved_index_less[OF that] Suc.prems(2) by simp
      then show ?thesis
        using idx by (auto simp: F1_def nth_list_update e0 e1)
    qed
    have "F' ! (a * chans + c) =
                (if i + k \<le> a + L \<and> a + L < i + step \<and> c < 2
                 then (if c = 0 then out_l (a + L - i) else out_r (a + L - i))
                 else F ! (a * chans + c))" if "a < N" "c < chans" for a c
    proof (cases "a = a0")
      case True
      then have "a + L - i = k" "\<not> i + Suc k \<le> a + L" "i + k \<le> a + L" "a + L < i + step"
        using a0(2) k by simp_all
      then show ?thesis using F'(3)[OF that] F1n[OF that] True by simp
    next
      case False
      then have "(i + Suc k \<le> a + L) = (i + k \<le> a + L)" using a0(2) by auto
      then show ?thesis using F'(3)[OF that] F1n[OF that] False by simp
    qed
    with w F'(2) show ?thesis by blast
  qed
qed

lemma main_block_ok:
  assumes "2 \<le> chans" "in_ports_found code" "out_ports_found code"
    and "length F = N * chans" "i + step \<le> N"
    and r: "lv2_run code (pl_lv2 pl) (map (\<lambda>j. F ! ((i + j) * chans)) [0..<step])
              (map (\<lambda>j. F ! ((i + j) * chans + 1)) [0..<step]) = (p', out_l, out_r)"
  shows "\<exists>F' pl'. main_block code chans L i step (F, pl) = Inr (F', pl') \<and> length F' = N * chans \<and>
           pl_lv2 pl' = p' \<and>
           (\<forall>a c. a < N \<longrightarrow> c < chans \<longrightarrow>
              F' ! (a * chans + c) =
                (if i \<le> a + L \<and> a + L < i + step \<and> c < 2
                 then (if c = 0 then out_l (a + L - i) else out_r (a + L - i))
                 else F ! (a * chans + c)))"
proof -
  from write_main_upt[OF assms(1,5) _ assms(4), of 0 L out_l out_r]
  obtain F' where F': "write_main True chans L i out_l out_r [0..<step] F = Inr F'"
    "length F' = N * chans"
    "\<forall>a c. a < N \<longrightarrow> c < chans \<longrightarrow> F' ! (a * chans + c) =
                (if i \<le> a + L \<and> a + L < i + step \<and> c < 2
                 then (if c = 0 then out_l (a + L - i) else out_r (a + L - i))
                 else F ! (a * chans + c))"
    by auto
  show ?thesis
    using F' assms(2,3) r
    by (simp add: main_block_def read_block_ok[OF assms(1,4,5)] run_block_lv2
        plugin_update_latency_def)
qed

lemma sum_block_sizes: "0 < step \<Longrightarrow> sum_list (block_sizes (min step n) n) = n"
proof (induction n arbitrary: step rule: less_induct)
  case (less n)
  show ?case
  proof (cases "n = 0")
    case True
    then show ?thesis by (simp add: block_sizes.simps)
  next
    case False
    with less.prems have m: "0 < min step n" "min step n \<le> n" by simp_all
    have "min (min step n) (n - min step n) = min step (n - min step n)" by simp
    moreover from less.IH[of "n - min step n" step] m less.prems False
    have "sum_list (block_sizes (min step (n - min step n)) (n - min step n)) = n - min step n"
      by simp
    ultimately show ?thesis
      using False m by (subst block_sizes.simps) simp
  qed
qed

lemma input_blocks_cong:
  "(\<And>a. i \<le> a \<Longrightarrow> a < i + sum_list ss \<Longrightarrow>
      F ! (a * chans) = G ! (a * chans) \<and> F ! (a * chans + 1) = G ! (a * chans + 1)) \<Longrightarrow>
   input_blocks F chans i ss = input_blocks G chans i ss"
proof (induction ss arbitrary: i)
  case Nil
  then show ?case by simp
next
  case (Cons s ss)
  have "input_blocks F chans (i + s) ss = input_blocks G chans (i + s) ss"
    by (rule Cons.IH) (use Cons.prems in auto)
  moreover have "map (\<lambda>j. F ! ((i + j) * chans)) [0..<s] = map (\<lambda>j. G ! ((i + j) * chans)) [0..<s]"
    using Cons.prems by auto
  moreover have "map (\<lambda>j. F ! ((i + j) * chans + 1)) [0..<s] = map (\<lambda>j. G ! ((i + j) * chans + 1)) [0..<s]"
    using Cons.prems by auto
  ultimately show ?case by simp
qed

lemma length_run_blocks: "length (run_blocks code p bs) = sum_list (map (length \<circ> fst) bs)"
  by (induction bs arbitrary: p) (auto split: prod.splits)

lemma length_input_blocks: "map (length \<circ> fst) (input_blocks F chans i ss) = ss"
  by (induction ss arbitrary: i) auto

lemma length_silent_blocks: "map (length \<circ> fst) (silent_blocks ss) = ss"
  by (induction ss) (auto simp: silent_blocks_def)

lemma main_pass_correct:
  assumes c: "2 \<le> chans" "in_ports_found code" "out_ports_found code" "0 < blk"
  shows "i \<le> N \<Longrightarrow> length F = N * chans \<Longrightarrow>
     \<exists>F' pl'. main_pass code chans N L i (min blk (N - i)) (F, pl) = Some (Inr (F', pl')) \<and>
        length F' = N * chans \<and>
        pl_lv2 pl' = after_blocks code (pl_lv2 pl)
                       (input_blocks F chans i (block_sizes (min blk (N - i)) (N - i))) \<and>
        (\<forall>a c. a < N \<longrightarrow> c < chans \<longrightarrow>
           F' ! (a * chans + c) =
             (if i \<le> a + L \<and> a + L < N \<and> c < 2
              then (if c = 0 then fst else snd)
                     (run_blocks code (pl_lv2 pl)
                        (input_blocks F chans i (block_sizes (min blk (N - i)) (N - i))) ! (a + L - i))
              else F ! (a * chans + c)))"
proof (induction "N - i" arbitrary: i F pl rule: less_induct)
  case less
  show ?case
  proof (cases "i < N")
    case False
    with less.prems have "i = N" by simp
    then show ?thesis
      using less.prems(2)
      by (subst main_pass.simps) (auto simp: block_sizes.simps)
  next
    case True
    define step where "step = min blk (N - i)"
    have step: "0 < step" "i + step \<le> N" using True c(4) by (simp_all add: step_def)
    define b0 where "b0 = (map (\<lambda>j. F ! ((i + j) * chans)) [0..<step],
                           map (\<lambda>j. F ! ((i + j) * chans + 1)) [0..<step])"
    obtain p' out_l out_r where r: "lv2_run code (pl_lv2 pl) (fst b0) (snd b0) = (p', out_l, out_r)"
      by (cases "lv2_run code (pl_lv2 pl) (fst b0) (snd b0)") auto
    from main_block_ok[OF c(1-3) less.prems(2) step(2), of pl p' out_l out_r L] r
    obtain F1 pl1 where b: "main_block code chans L i step (F, pl) = Inr (F1, pl1)"
      and lF1: "length F1 = N * chans" and p1: "pl_lv2 pl1 = p'"
      and F1: "\<And>a c. a < N \<Longrightarrow> c < chans \<Longrightarrow> F1 ! (a * chans + c) =
                (if i \<le> a + L \<and> a + L < i + step \<and> c < 2
                 then (if c = 0 then out_l (a + L - i) else out_r (a + L - i))
                 else F ! (a * chans + c))"
      by (auto simp: b0_def)
    define rest where "rest = block_sizes (min blk (N - (i + step))) (N - (i + step))"
    have nxt: "min step (N - (i + step)) = min blk (N - (i + step))"
      unfolding step_def by (simp add: min_def)
    have bs: "block_sizes step (N - i) = step # rest"
      using True step(1) nxt
      by (subst block_sizes.simps) (simp add: rest_def)
    have sum: "sum_list rest = N - (i + step)"
      unfolding rest_def by (rule sum_block_sizes[OF c(4)])
    have cong: "input_blocks F1 chans (i + step) rest = input_blocks F chans (i + step) rest"
    proof (rule input_blocks_cong)
      fix a assume a: "i + step \<le> a" "a < i + step + sum_list rest"
      then have "a < N" using sum step(2) by simp
      with F1[of a 0] F1[of a 1] a(1) c(1)
      show "F1 ! (a * chans) = F ! (a * chans) \<and> F1 ! (a * chans + 1) = F ! (a * chans + 1)"
        by simp
    qed
    define B where "B = input_blocks F chans (i + step) rest"
    have ib: "input_blocks F chans i (block_sizes step (N - i)) = b0 # B"
      by (simp add: bs b0_def B_def)
    have "N - (i + step) < N - i" using True step(1) by simp
    from less.hyps[OF this _ lF1, of pl1] step(2)
    obtain F' pl' where
      m: "main_pass code chans N L (i + step) (min blk (N - (i + step))) (F1, pl1) = Some (Inr (F', pl'))"
      and lF': "length F' = N * chans"
      and p': "pl_lv2 pl' = after_blocks code p' B"
      and F': "\<And>a c. a < N \<Longrightarrow> c < chans \<Longrightarrow> F' ! (a * chans + c) =
             (if i + step \<le> a + L \<and> a + L < N \<and> c < 2
              then (if c = 0 then fst else snd) (run_blocks code p' B ! (a + L - (i + step)))
              else F1 ! (a * chans + c))"
      by (auto simp: p1 cong rest_def[symmetric] B_def)
    have mp: "main_pass code chans N L i step (F, pl) = Some (Inr (F', pl'))"
      using True b m by (subst main_pass.simps) (simp add: nxt)
    have Y: "run_blocks code (pl_lv2 pl) (b0 # B) =
               map (\<lambda>j. (out_l j, out_r j)) [0..<step] @ run_blocks code p' B"
      using r by (simp add: b0_def)
    have "F' ! (a * chans + c) =
             (if i \<le> a + L \<and> a + L < N \<and> c < 2
              then (if c = 0 then fst else snd) (run_blocks code (pl_lv2 pl) (b0 # B) ! (a + L - i))
              else F ! (a * chans + c))" if "a < N" "c < chans" for a c
    proof (cases "i + step \<le> a + L")
      case True
      then have "\<not> a + L - i < step" "a + L - i - step = a + L - (i + step)" "i \<le> a + L"
        by simp_all
      then have "run_blocks code (pl_lv2 pl) (b0 # B) ! (a + L - i) =
                 run_blocks code p' B ! (a + L - (i + step))"
        by (simp add: Y nth_append del: run_blocks.simps)
      then show ?thesis
        using F'[OF that] F1[OF that] True \<open>i \<le> a + L\<close>
        by (simp del: run_blocks.simps)
    next
      case False
      then show ?thesis
        using F'[OF that] F1[OF that] step(2)
        by (auto simp: Y nth_append simp del: run_blocks.simps)
    qed
    with mp lF' p' r show ?thesis
      unfolding step_def[symmetric] ib by (auto simp: b0_def)
  qed
qed

subsection \<open>The flush pass\<close>

lemma write_flush_upt:
  assumes "2 \<le> chans" "i + step \<le> L" "L \<le> N"
  shows "k \<le> step \<Longrightarrow> length F = N * chans \<Longrightarrow>
         \<exists>F'. write_flush True chans N L i out_l out_r [k..<step] F = Inr F' \<and> length F' = N * chans \<and>
           (\<forall>a c. a < N \<longrightarrow> c < chans \<longrightarrow>
              F' ! (a * chans + c) =
                (if i + k + N \<le> a + L \<and> a + L < i + step + N \<and> c < 2
                 then (if c = 0 then out_l (a + L - N - i) else out_r (a + L - N - i))
                 else F ! (a * chans + c)))"
proof (induction "step - k" arbitrary: k F)
  case 0
  then have "step = k" by simp
  with 0 show ?case by (intro exI[of _ F]) auto
next
  case (Suc m)
  then have k: "k < step" by simp
  then have upt: "[k..<step] = k # [Suc k..<step]" by (simp add: upt_conv_Cons)
  from Suc.hyps(2) have m: "m = step - Suc k" by simp
  define a0 where "a0 = i + k + N - L"
  have a0: "a0 < N" "a0 + L = i + k + N" using k assms(2,3) by (auto simp: a0_def)
  have n: "nat (int (i + k + N) - int L) = a0" "nat (int i + int k + int N - int L) = a0"
    "\<not> int (i + k + N) - int L < 0" "\<not> int i + int k + int N - int L < 0"
    using assms(3) by (simp_all add: a0_def)
  have idx: "a0 * chans + 1 < length F" "a0 * chans < length F"
    using interleaved_index_less[OF a0(1), of 1 chans] interleaved_index_less[OF a0(1), of 0 chans]
      assms(1) Suc.prems(2) by simp_all
  define F1 where "F1 = F[a0 * chans := out_l k, a0 * chans + 1 := out_r k]"
  have lF1: "length F1 = N * chans" using Suc.prems(2) by (simp add: F1_def)
  from Suc.hyps(1)[OF m _ lF1] k
  obtain F' where F': "write_flush True chans N L i out_l out_r [Suc k..<step] F1 = Inr F'"
    "length F' = N * chans"
    "\<And>a c. a < N \<Longrightarrow> c < chans \<Longrightarrow> F' ! (a * chans + c) =
              (if i + Suc k + N \<le> a + L \<and> a + L < i + step + N \<and> c < 2
               then (if c = 0 then out_l (a + L - N - i) else out_r (a + L - N - i))
               else F1 ! (a * chans + c))"
    by auto
  have w: "write_flush True chans N L i out_l out_r [k..<step] F = Inr F'"
    using idx F'(1) n by (simp add: upt F1_def Let_def)
  have F1n: "F1 ! (a * chans + c) =
       (if a = a0 \<and> c < 2 then (if c = 0 then out_l k else out_r k) else F ! (a * chans + c))"
    if "a < N" "c < chans" for a c
  proof -
    have e0: "(a0 * chans = a * chans + c) = (a = a0 \<and> c = 0)"
      using interleaved_index_eq[of 0 chans c a0 a] assms(1) that(2) by auto
    have e1: "(Suc (a0 * chans) = a * chans + c) = (a = a0 \<and> c = 1)"
      using interleaved_index_eq[of 1 chans c a0 a] assms(1) that(2) by auto
    have "a * chans + c < length F"
      using interleaved_index_less[OF that] Suc.prems(2) by simp
    then show ?thesis
      using idx by (auto simp: F1_def nth_list_update e0 e1)
  qed
  have "F' ! (a * chans + c) =
              (if i + k + N \<le> a + L \<and> a + L < i + step + N \<and> c < 2
               then (if c = 0 then out_l (a + L - N - i) else out_r (a + L - N - i))
               else F ! (a * chans + c))" if "a < N" "c < chans" for a c
  proof (cases "a = a0")
    case True
    then have "a + L - N - i = k" "\<not> i + Suc k + N \<le> a + L" "i + k + N \<le> a + L"
      "a + L < i + step + N"
      using a0(2) k by simp_all
    then show ?thesis using F'(3)[OF that] F1n[OF that] True by simp
  next
    case False
    then have "(i + Suc k + N \<le> a + L) = (i + k + N \<le> a + L)" using a0(2) by auto
    then show ?thesis using F'(3)[OF that] F1n[OF that] False by simp
  qed
  with w F'(2) show ?case by blast
qed

lemma flush_block_ok:
  assumes "2 \<le> chans" "in_ports_found code" "out_ports_found code"
    and "length F = N * chans" "i + step \<le> L" "L \<le> N"
    and r: "lv2_run code (pl_lv2 pl) (replicate step (Fin 0)) (replicate step (Fin 0))
              = (p', out_l, out_r)"
  shows "\<exists>F' pl'. flush_block code chans N L i step (F, pl) = Inr (F', pl') \<and> length F' = N * chans \<and>
           pl_lv2 pl' = p' \<and>
           (\<forall>a c. a < N \<longrightarrow> c < chans \<longrightarrow>
              F' ! (a * chans + c) =
                (if i + N \<le> a + L \<and> a + L < i + step + N \<and> c < 2
                 then (if c = 0 then out_l (a + L - N - i) else out_r (a + L - N - i))
                 else F ! (a * chans + c)))"
proof -
  from write_flush_upt[OF assms(1,5,6) _ assms(4), of 0 out_l out_r]
  obtain F' where F': "write_flush True chans N L i out_l out_r [0..<step] F = Inr F'"
    "length F' = N * chans"
    "\<forall>a c. a < N \<longrightarrow> c < chans \<longrightarrow> F' ! (a * chans + c) =
                (if i + N \<le> a + L \<and> a + L < i + step + N \<and> c < 2
                 then (if c = 0 then out_l (a + L - N - i) else out_r (a + L - N - i))
                 else F ! (a * chans + c))"
    by auto
  show ?thesis
    using F' assms(2,3) r
    by (simp add: flush_block_def run_block_lv2)
qed

lemma flush_pass_correct:
  assumes c: "2 \<le> chans" "in_ports_found code" "out_ports_found code" "0 < blk" "L \<le> N"
  shows "i \<le> L \<Longrightarrow> length F = N * chans \<Longrightarrow>
     \<exists>F' pl'. flush_pass code chans N L i (min blk (L - i)) (F, pl) = Some (Inr (F', pl')) \<and>
        length F' = N * chans \<and>
        (\<forall>a c. a < N \<longrightarrow> c < chans \<longrightarrow>
           F' ! (a * chans + c) =
             (if i + N \<le> a + L \<and> c < 2
              then (if c = 0 then fst else snd)
                     (run_blocks code (pl_lv2 pl)
                        (silent_blocks (block_sizes (min blk (L - i)) (L - i))) ! (a + L - N - i))
              else F ! (a * chans + c)))"
proof (induction "L - i" arbitrary: i F pl rule: less_induct)
  case less
  show ?case
  proof (cases "i < L")
    case False
    with less.prems have "i = L" by simp
    then show ?thesis
      using less.prems(2)
      by (subst flush_pass.simps) (auto simp: block_sizes.simps)
  next
    case True
    define step where "step = min blk (L - i)"
    have step: "0 < step" "i + step \<le> L" using True c(4) by (simp_all add: step_def)
    define b0 where "b0 = (replicate step (Fin 0), replicate step (Fin 0))"
    obtain p' out_l out_r where r: "lv2_run code (pl_lv2 pl) (fst b0) (snd b0) = (p', out_l, out_r)"
      by (cases "lv2_run code (pl_lv2 pl) (fst b0) (snd b0)") auto
    from flush_block_ok[OF c(1-3) less.prems(2) step(2) c(5), of pl p' out_l out_r] r
    obtain F1 pl1 where b: "flush_block code chans N L i step (F, pl) = Inr (F1, pl1)"
      and lF1: "length F1 = N * chans" and p1: "pl_lv2 pl1 = p'"
      and F1: "\<And>a c. a < N \<Longrightarrow> c < chans \<Longrightarrow> F1 ! (a * chans + c) =
                (if i + N \<le> a + L \<and> a + L < i + step + N \<and> c < 2
                 then (if c = 0 then out_l (a + L - N - i) else out_r (a + L - N - i))
                 else F ! (a * chans + c))"
      by (auto simp: b0_def)
    define rest where "rest = block_sizes (min blk (L - (i + step))) (L - (i + step))"
    have nxt: "min step (L - (i + step)) = min blk (L - (i + step))"
      unfolding step_def by (simp add: min_def)
    have bs: "block_sizes step (L - i) = step # rest"
      using True step(1) nxt
      by (subst block_sizes.simps) (simp add: rest_def)
    define B where "B = silent_blocks rest"
    have ib: "silent_blocks (block_sizes step (L - i)) = b0 # B"
      by (simp add: bs b0_def B_def silent_blocks_def)
    have "L - (i + step) < L - i" using True step(1) by simp
    from less.hyps[OF this _ lF1, of pl1] step(2)
    obtain F' pl' where
      m: "flush_pass code chans N L (i + step) (min blk (L - (i + step))) (F1, pl1) = Some (Inr (F', pl'))"
      and lF': "length F' = N * chans"
      and F': "\<And>a c. a < N \<Longrightarrow> c < chans \<Longrightarrow> F' ! (a * chans + c) =
             (if i + step + N \<le> a + L \<and> c < 2
              then (if c = 0 then fst else snd) (run_blocks code p' B ! (a + L - N - (i + step)))
              else F1 ! (a * chans + c))"
      by (auto simp: p1 rest_def[symmetric] B_def)
    have mp: "flush_pass code chans N L i step (F, pl) = Some (Inr (F', pl'))"
      using True b m by (subst flush_pass.simps) (simp add: nxt)
    have Y: "run_blocks code (pl_lv2 pl) (b0 # B) =
               map (\<lambda>j. (out_l j, out_r j)) [0..<step] @ run_blocks code p' B"
      using r by (simp add: b0_def)
    have "F' ! (a * chans + c) =
             (if i + N \<le> a + L \<and> c < 2
              then (if c = 0 then fst else snd) (run_blocks code (pl_lv2 pl) (b0 # B) ! (a + L - N - i))
              else F ! (a * chans + c))" if "a < N" "c < chans" for a c
    proof (cases "i + step + N \<le> a + L")
      case True
      then have "\<not> a + L - N - i < step" "a + L - N - i - step = a + L - N - (i + step)"
        "i + N \<le> a + L"
        by simp_all
      then have "run_blocks code (pl_lv2 pl) (b0 # B) ! (a + L - N - i) =
                 run_blocks code p' B ! (a + L - N - (i + step))"
        by (simp add: Y nth_append del: run_blocks.simps)
      then show ?thesis
        using F'[OF that] F1[OF that] True \<open>i + N \<le> a + L\<close>
        by (simp del: run_blocks.simps)
    next
      case False
      then show ?thesis
        using F'[OF that] F1[OF that] step(2)
        by (auto simp: Y nth_append simp del: run_blocks.simps)
    qed
    with mp lF' show ?thesis
      unfolding step_def[symmetric] ib by auto
  qed
qed

subsection \<open>Latency compensation\<close>

lemma run_blocks_append:
  "run_blocks code p (bs @ cs) = run_blocks code p bs @ run_blocks code (after_blocks code p bs) cs"
  by (induction bs arbitrary: p) (auto split: prod.splits)

text \<open>
  The main pass with a step of 0 runs the plugin on empty blocks for ever: with a block
  length of 0 and a selection that is not empty, \<^verbatim>\<open>apply_plugin\<close> does not return.
\<close>

lemma main_block_step_0: "\<exists>fp'. main_block code chans latency i 0 fp = Inr fp'"
  by (simp add: main_block_def read_block_def split: prod.splits)

lemma main_pass_returns_progress:
  assumes m: "main_pass code chans num_frames latency i step fp = Some y"
  shows "\<not> (i < num_frames \<and> step = 0)"
proof (rule main_pass.raw_induct
      [where P = "\<lambda>code chans num_frames latency i step fp y. \<not> (i < num_frames \<and> step = 0)",
       OF _ m], goal_cases)
  case (1 f c ch N L k st g z)
  show ?case
  proof
    assume a: "k < N \<and> st = 0"
    from main_block_step_0[of c ch L k g] obtain g' where
      g': "main_block c ch L k 0 g = Inr g'" ..
    from 1(2) a g' have "f c ch N L k 0 g' = Some z" by simp
    from 1(1)[OF this] a show False by simp
  qed
qed

lemma main_pass_no_progress:
  "i < num_frames \<Longrightarrow> main_pass code chans num_frames latency i 0 fp = None"
  using main_pass_returns_progress[of code chans num_frames latency i 0 fp]
  by (cases "main_pass code chans num_frames latency i 0 fp") auto

lemma apply_plugin_block_length_0:
  assumes "load uri = Inr p" and "0 < num_frames"
  shows "apply_plugin 0 load code uri frames num_frames chans = None"
  using assms by (simp add: apply_plugin_def main_pass_no_progress Let_def)

text \<open>
  After a block of the main pass the plugin's latency field holds what the plugin reports
  only if the block's first frame is past the latency read before the loop.
\<close>

lemma main_block_latency_field:
  assumes "main_block code chans latency i step (F, pl) = Inr (F', pl')"
  shows "pl_latency pl' = (if latency < i then reported_latency code (pl_lv2 pl') else pl_latency pl)"
  using assms
  by (auto simp: main_block_def run_block_def plugin_update_latency_def
      split: if_splits sum.splits prod.splits)

text \<open>
  C4, amended. The latency is read from the plugin once, before the main pass, and that
  value \<open>L\<close> is used for the whole call, whatever the plugin reports after a block. The
  hypotheses: the plugin is loaded; the clip has at least two channels and \<open>frames\<close>
  holds its \<open>N\<close> frames; the block length is positive; the plugin's audio input and
  output ports are found (one output, or two outputs and two inputs); \<open>L \<le> N\<close>. Then
  \<^verbatim>\<open>apply_plugin\<close> returns 0 with an array of the same \<open>N\<close> frames in which channels 0 and
  1 of frame \<open>a\<close> are the plugin's output number \<open>a + L\<close>, where the plugin is run block by
  block on the selection and then on \<open>L\<close> frames of silence: every block's output is
  written at its index minus \<open>L\<close>, output that would land before frame 0 is dropped, and the
  flush pass fills the last \<open>L\<close> frames. Further channels are left as they were.
\<close>

theorem apply_plugin_compensates:
  assumes "load uri = Inr p" and "reported_latency code p \<le> num_frames" and "0 < blk_length"
    and "2 \<le> chans" and "length frames = num_frames * chans"
    and "in_ports_found code" and "out_ports_found code"
  shows "\<exists>frames'.
           apply_plugin blk_length load code uri frames num_frames chans = Some (Inr frames') \<and>
           length frames' = num_frames * chans \<and>
           (\<forall>a < num_frames.
              frames' ! (a * chans) =
                fst (plugin_output blk_length code p frames num_frames chans ! (a + reported_latency code p)) \<and>
              frames' ! (a * chans + 1) =
                snd (plugin_output blk_length code p frames num_frames chans ! (a + reported_latency code p)) \<and>
              (\<forall>c. 2 \<le> c \<and> c < chans \<longrightarrow> frames' ! (a * chans + c) = frames ! (a * chans + c)))"
proof -
  define L where "L = reported_latency code p"
  define N where "N = num_frames"
  define pl where "pl = plugin_update_latency code \<lparr>pl_lv2 = p, pl_latency = 0\<rparr>"
  have pl: "pl_lv2 pl = p" "pl_latency pl = L"
    by (simp_all add: pl_def plugin_update_latency_def L_def)
  define MB where "MB = input_blocks frames chans 0 (block_sizes (min blk_length N) N)"
  define SB where "SB = silent_blocks (block_sizes (min blk_length L) L)"
  have lf: "length frames = N * chans" using assms(5) by (simp add: N_def)
  have LN: "L \<le> N" using assms(2) by (simp add: L_def N_def)
  from main_pass_correct[OF assms(4,6,7,3), of 0 N frames L pl] lf
  obtain F1 pl1 where
    m: "main_pass code chans N L 0 (min blk_length N) (frames, pl) = Some (Inr (F1, pl1))"
    and lF1: "length F1 = N * chans"
    and p1: "pl_lv2 pl1 = after_blocks code p MB"
    and F1: "\<And>a c. a < N \<Longrightarrow> c < chans \<Longrightarrow> F1 ! (a * chans + c) =
               (if a + L < N \<and> c < 2
                then (if c = 0 then fst else snd) (run_blocks code p MB ! (a + L))
                else frames ! (a * chans + c))"
    by (auto simp: pl MB_def)
  from flush_pass_correct[OF assms(4,6,7,3) LN, of 0 F1 pl1] lF1
  obtain F2 pl2 where
    f: "flush_pass code chans N L 0 (min blk_length L) (F1, pl1) = Some (Inr (F2, pl2))"
    and lF2: "length F2 = N * chans"
    and F2: "\<And>a c. a < N \<Longrightarrow> c < chans \<Longrightarrow> F2 ! (a * chans + c) =
               (if N \<le> a + L \<and> c < 2
                then (if c = 0 then fst else snd)
                       (run_blocks code (after_blocks code p MB) SB ! (a + L - N))
                else F1 ! (a * chans + c))"
    by (auto simp: p1 SB_def)
  have r: "apply_plugin blk_length load code uri frames num_frames chans = Some (Inr F2)"
    using assms(1) m f
    by (simp add: apply_plugin_def Let_def pl_def[symmetric] pl N_def[symmetric])
  have lY: "length (run_blocks code p MB) = N"
    using sum_block_sizes[OF assms(3), of N]
    by (simp add: length_run_blocks MB_def length_input_blocks)
  have Y: "plugin_output blk_length code p frames num_frames chans =
             run_blocks code p MB @ run_blocks code (after_blocks code p MB) SB"
    by (simp add: plugin_output_def run_blocks_append MB_def SB_def N_def L_def)
  have Yn: "plugin_output blk_length code p frames num_frames chans ! (a + L) =
              (if a + L < N then run_blocks code p MB ! (a + L)
               else run_blocks code (after_blocks code p MB) SB ! (a + L - N))" for a
    by (simp add: Y nth_append lY)
  have "F2 ! (a * chans) = fst (plugin_output blk_length code p frames num_frames chans ! (a + L)) \<and>
        F2 ! (a * chans + 1) = snd (plugin_output blk_length code p frames num_frames chans ! (a + L)) \<and>
        (\<forall>c. 2 \<le> c \<and> c < chans \<longrightarrow> F2 ! (a * chans + c) = frames ! (a * chans + c))"
    if "a < N" for a
    using F2[OF that, of 0] F2[OF that, of 1] F1[OF that, of 0] F1[OF that, of 1]
      F2[OF that] F1[OF that] assms(4)
    by (auto simp: Yn)
  with r lF2 show ?thesis
    by (auto simp: N_def L_def)
qed

text \<open>
  Witness for C4: a delay line of 2 frames applied to four stereo frames in blocks of 3
  gives the four frames back.
\<close>

lemmas plugin_defs = delay_plugin_def delay_run_def load_delay_def ramp_def
  in_ports_found_def out_ports_found_def num_plugin_channels_def

lemma delay_output:
  "plugin_output 3 delay_plugin (replicate 2 (Fin 0, Fin 0)) ramp 4 2 =
     [(Fin 0, Fin 0), (Fin 0, Fin 0), (Fin 1, Fin 2), (Fin 3, Fin 4), (Fin 5, Fin 6), (Fin 7, Fin 8)]"
  by code_simp

theorem apply_plugin_compensates_witness:
  "load_delay 2 ''delay'' = Inr (replicate 2 (Fin 0, Fin 0)) \<and>
   reported_latency delay_plugin (replicate 2 (Fin 0, Fin 0)) = 2 \<and>
   (\<exists>frames'. apply_plugin 3 (load_delay 2) delay_plugin ''delay'' ramp 4 2 = Some (Inr frames') \<and>
      length frames' = 8 \<and>
      frames' ! 0 = Fin 1 \<and> frames' ! 1 = Fin 2 \<and> frames' ! 2 = Fin 3 \<and> frames' ! 3 = Fin 4 \<and>
      frames' ! 4 = Fin 5 \<and> frames' ! 5 = Fin 6 \<and> frames' ! 6 = Fin 7 \<and> frames' ! 7 = Fin 8)"
proof -
  have a: "load_delay 2 ''delay'' = Inr (replicate 2 (Fin 0, Fin 0))"
    by (simp add: load_delay_def)
  have b: "reported_latency delay_plugin (replicate 2 (Fin 0, Fin 0)) \<le> 4"
    and b': "reported_latency delay_plugin (replicate 2 (Fin 0, Fin 0)) = 2"
    by (simp_all add: delay_plugin_def)
  have c: "(0::nat) < 3" "(2::nat) \<le> 2" "length ramp = 4 * 2"
    "in_ports_found delay_plugin" "out_ports_found delay_plugin"
    by (simp_all add: plugin_defs)
  from apply_plugin_compensates[where load="load_delay 2" and uri="''delay''", OF a b c]
  obtain frames' where
    r: "apply_plugin 3 (load_delay 2) delay_plugin ''delay'' ramp 4 2 = Some (Inr frames')"
    and l: "length frames' = 4 * 2"
    and f: "\<And>a. a < 4 \<Longrightarrow>
        frames' ! (a * 2) = fst (plugin_output 3 delay_plugin (replicate 2 (Fin 0, Fin 0)) ramp 4 2 ! (a + 2)) \<and>
        frames' ! (a * 2 + 1) = snd (plugin_output 3 delay_plugin (replicate 2 (Fin 0, Fin 0)) ramp 4 2 ! (a + 2))"
    unfolding b' by blast
  from f[of 0] f[of 1] f[of 2] f[of 3]
  have "frames' ! 0 = Fin 1 \<and> frames' ! 1 = Fin 2 \<and> frames' ! 2 = Fin 3 \<and> frames' ! 3 = Fin 4 \<and>
      frames' ! 4 = Fin 5 \<and> frames' ! 5 = Fin 6 \<and> frames' ! 6 = Fin 7 \<and> frames' ! 7 = Fin 8"
    by (simp add: delay_output)
  with a b' r l show ?thesis by simp
qed

text \<open>
  Counterexamples for C4 as stated. The latency is not re-read after every block and does
  not shift the writes: the drifting plugin reports latency 0 when it is loaded; after the
  first block of one frame it reports 1 and the plugin's latency field is still 0; and
  the whole call, in blocks of one frame, leaves the output of run \<open>k\<close> in frame \<open>k\<close>,
  where no output is shifted although the reported latency grows with every run. And the
  output does not have \<open>N\<close> frames of plugin output for every selection: on a mono clip
  the call reads past the end of the array; with a plugin without audio output it writes
  through a NULL pointer; with the block length 0 it does not return; with a latency
  longer than the selection it returns \<open>-1\<close>.
\<close>

theorem latency_read_once:
  "load_drifting ''drift'' = Inr 0 \<and> reported_latency drifting_plugin 0 = 0 \<and>
   main_block drifting_plugin 2 0 0 1
       (ramp, plugin_update_latency drifting_plugin \<lparr>pl_lv2 = 0, pl_latency = 0\<rparr>)
     = Inr ([Fin 10, Fin 10, Fin 3, Fin 4, Fin 5, Fin 6, Fin 7, Fin 8], \<lparr>pl_lv2 = 1, pl_latency = 0\<rparr>) \<and>
   reported_latency drifting_plugin 1 = 1 \<and>
   apply_plugin 1 load_drifting drifting_plugin ''drift'' ramp 4 2
     = Some (Inr [Fin 10, Fin 10, Fin 11, Fin 11, Fin 12, Fin 12, Fin 13, Fin 13]) \<and>
   apply_plugin 3 (load_delay 2) delay_plugin ''delay'' mono_ramp 4 1 = Some (Inl Undefined) \<and>
   apply_plugin 3 (load_delay 0) mute_plugin ''delay'' ramp 4 2 = Some (Inl Undefined) \<and>
   apply_plugin 0 (load_delay 0) delay_plugin ''delay'' ramp 4 2 = None \<and>
   apply_plugin 3 (load_delay 5) delay_plugin ''delay'' ramp 4 2 = Some (Inl Failed)"
proof -
  have "load_drifting ''drift'' = Inr 0" "reported_latency drifting_plugin 0 = 0"
    "reported_latency drifting_plugin 1 = 1"
    by (simp_all add: load_drifting_def drifting_plugin_def)
  moreover have "main_block drifting_plugin 2 0 0 1
       (ramp, plugin_update_latency drifting_plugin \<lparr>pl_lv2 = 0, pl_latency = 0\<rparr>)
     = Inr ([Fin 10, Fin 10, Fin 3, Fin 4, Fin 5, Fin 6, Fin 7, Fin 8], \<lparr>pl_lv2 = 1, pl_latency = 0\<rparr>)"
    by code_simp
  moreover have "apply_plugin 1 load_drifting drifting_plugin ''drift'' ramp 4 2
     = Some (Inr [Fin 10, Fin 10, Fin 11, Fin 11, Fin 12, Fin 12, Fin 13, Fin 13])"
    by code_simp
  moreover have "apply_plugin 3 (load_delay 2) delay_plugin ''delay'' mono_ramp 4 1 = Some (Inl Undefined)"
    by code_simp
  moreover have "apply_plugin 3 (load_delay 0) mute_plugin ''delay'' ramp 4 2 = Some (Inl Undefined)"
    by code_simp
  moreover have "apply_plugin 0 (load_delay 0) delay_plugin ''delay'' ramp 4 2 = None"
    by (simp add: apply_plugin_def load_delay_def main_pass_no_progress Let_def)
  moreover have "apply_plugin 3 (load_delay 5) delay_plugin ''delay'' ramp 4 2 = Some (Inl Failed)"
    by code_simp
  ultimately show ?thesis by simp
qed

text \<open>
  When the latency read before the main pass exceeds the number of frames, the flush
  pass's first index is negative and the call returns \<open>-1\<close>.
\<close>

lemma apply_plugin_latency_too_long:
  assumes "load uri = Inr p" and "num_frames < reported_latency code p" and "0 < blk_length"
    and "2 \<le> chans" and "length frames = num_frames * chans"
    and "in_ports_found code" and "out_ports_found code"
  shows "apply_plugin blk_length load code uri frames num_frames chans = Some (Inl Failed)"
proof -
  define L where "L = reported_latency code p"
  define pl where "pl = plugin_update_latency code \<lparr>pl_lv2 = p, pl_latency = 0\<rparr>"
  have pl: "pl_latency pl = L"
    by (simp add: pl_def plugin_update_latency_def L_def)
  from main_pass_correct[OF assms(4,6,7,3), of 0 num_frames frames L pl] assms(5)
  obtain F1 pl1 where
    m: "main_pass code chans num_frames L 0 (min blk_length num_frames) (frames, pl) = Some (Inr (F1, pl1))"
    by auto
  define step where "step = min blk_length L"
  have step: "0 < step" "0 < L" using assms(2,3) by (simp_all add: step_def L_def)
  then have upt: "[0..<step] = 0 # [1..<step]" by (simp add: upt_conv_Cons)
  have "flush_block code chans num_frames L 0 step (F1, pl1) = Inl Failed"
    using assms(2,6) step
    by (simp add: flush_block_def upt L_def[symmetric] split: prod.splits)
  then have f: "flush_pass code chans num_frames L 0 step (F1, pl1) = Some (Inl Failed)"
    using step by (subst flush_pass.simps) simp
  show ?thesis
    using assms(1) m f
    by (simp add: apply_plugin_def Let_def pl_def[symmetric] pl step_def)
qed

end
